theory Spec2Isabelle
  imports Complex_Main
begin

section \<open>JavaScript values used by the checkout handlers\<close>

text \<open>
  The repository holds two serverless handlers: \<^verbatim>\<open>src/api/create-session.js\<close> (Tabby only,
  called \<open>handler\<close> below) and the unified Tabby + Stripe + CRM handler of
  \<^verbatim>\<open>src/unnamed/part_000\<close> (called \<open>handler_unified\<close> below). Both are straight-line
  JavaScript over JSON values, so the embedding starts with the values and the built-in
  operations the handlers apply to them.

  A string is a \<open>string\<close>: the bytes of its UTF-8 encoding, so that U+00A0 is the two
  bytes \<open>0xC2 0xA0\<close>. Numbers are IEEE 754 doubles, represented by their exact rational value
  (\<open>Fin\<close>), the two infinities and \<open>NaN\<close>; the two zeros are identified, which no
  operation used by the handlers can tell apart. Console output is not modelled: it
  reaches neither the caller nor a provider.
\<close>

subsection \<open>Numbers\<close>

datatype jsnum = NaN | PosInf | NegInf | Fin rat

function bit_length :: "int \<Rightarrow> int" where
  "bit_length n = (if n \<le> 0 then 0 else 1 + bit_length (n div 2))"
  by pat_completeness auto
termination
  by (relation "measure nat") auto

declare bit_length.simps [simp del]

definition pow2 :: "int \<Rightarrow> rat" where
  "pow2 e = (if 0 \<le> e then 2 ^ nat e else 1 / 2 ^ nat (- e))"

text \<open>\<open>ilog2 q\<close> is the exponent \<open>e\<close> with \<open>2\<^sup>e \<le> q < 2\<^sup>e\<^sup>+\<^sup>1\<close>, for \<open>q > 0\<close>.\<close>

definition ilog2 :: "rat \<Rightarrow> int" where
  "ilog2 q = (if 1 \<le> q then bit_length \<lfloor>q\<rfloor> - 1
              else - bit_length (\<lceil>1 / q\<rceil> - 1))"

definition round_half_even :: "rat \<Rightarrow> int" where
  "round_half_even q =
     (let f = \<lfloor>q\<rfloor>; r = q - of_int f
      in if r < 1 / 2 then f else if 1 / 2 < r then f + 1 else if even f then f else f + 1)"

text \<open>
  Rounding of an exact value to the nearest double (53 bit significand, ties to even,
  subnormals below \<open>2\<^sup>-\<^sup>1\<^sup>0\<^sup>2\<^sup>2\<close>, overflow to infinity from \<open>2\<^sup>1\<^sup>0\<^sup>2\<^sup>4\<close>).
\<close>

definition to_double :: "rat \<Rightarrow> jsnum" where
  "to_double q =
     (if q = 0 then Fin 0
      else let a = \<bar>q\<bar>;
               e = max (ilog2 a) (- 1022);
               u = pow2 (e - 52);
               v = of_int (round_half_even (a / u)) * u
           in if pow2 1024 \<le> v then (if 0 < q then PosInf else NegInf)
              else Fin (if 0 < q then v else - v))"

text \<open>
  What the rounding has to achieve: the doubles are the values \<open>m \<cdot> 2\<^sup>e\<close> with
  \<open>\<bar>m\<bar> < 2\<^sup>5\<^sup>3\<close> and \<open>- 1074 \<le> e \<le> 971\<close>, and a correctly rounded result is a double nearest
  to the exact value. The two predicates state what \<open>to_double\<close> computes; the arithmetic
  of the handlers is \<open>to_double\<close> itself.
\<close>

definition is_double :: "rat \<Rightarrow> bool" where
  "is_double v \<longleftrightarrow>
     (\<exists>m e. v = of_int m * 2 powi e \<and> \<bar>m\<bar> < 2 ^ 53 \<and> - 1074 \<le> e \<and> e \<le> 971)"

definition nearest_double :: "rat \<Rightarrow> rat \<Rightarrow> bool" where
  "nearest_double q v \<longleftrightarrow> is_double v \<and> (\<forall>d. is_double d \<longrightarrow> \<bar>q - v\<bar> \<le> \<bar>q - d\<bar>)"

text \<open>The product of two doubles, as the operator \<^verbatim>\<open>*\<close> computes it.\<close>

fun js_mul :: "jsnum \<Rightarrow> jsnum \<Rightarrow> jsnum" where
  "js_mul (Fin a) (Fin b) = to_double (a * b)"
| "js_mul NaN _ = NaN"
| "js_mul _ NaN = NaN"
| "js_mul (Fin a) PosInf = (if a = 0 then NaN else if 0 < a then PosInf else NegInf)"
| "js_mul (Fin a) NegInf = (if a = 0 then NaN else if 0 < a then NegInf else PosInf)"
| "js_mul PosInf (Fin b) = (if b = 0 then NaN else if 0 < b then PosInf else NegInf)"
| "js_mul NegInf (Fin b) = (if b = 0 then NaN else if 0 < b then NegInf else PosInf)"
| "js_mul PosInf PosInf = PosInf"
| "js_mul PosInf NegInf = NegInf"
| "js_mul NegInf PosInf = NegInf"
| "js_mul NegInf NegInf = PosInf"

text \<open>\<^verbatim>\<open>Math.round\<close>: the nearest integer, ties towards \<open>+\<infinity>\<close>.\<close>

fun Math_round :: "jsnum \<Rightarrow> jsnum" where
  "Math_round (Fin q) = Fin (of_int \<lfloor>q + 1 / 2\<rfloor>)"
| "Math_round n = n"

text \<open>The comparison \<^verbatim>\<open>x <= 0\<close>; every comparison with \<open>NaN\<close> is false.\<close>

fun le_zero :: "jsnum \<Rightarrow> bool" where
  "le_zero (Fin q) = (q \<le> 0)"
| "le_zero NegInf = True"
| "le_zero PosInf = False"
| "le_zero NaN = False"

text \<open>\<^verbatim>\<open>x > 0\<close>, used to state what a positive amount is.\<close>

fun gt_zero :: "jsnum \<Rightarrow> bool" where
  "gt_zero (Fin q) = (0 < q)"
| "gt_zero PosInf = True"
| "gt_zero NegInf = False"
| "gt_zero NaN = False"

subsection \<open>Strings: white space, \<^verbatim>\<open>trim\<close>, \<^verbatim>\<open>split(/\s+/)\<close>, \<^verbatim>\<open>parseFloat\<close>\<close>

text \<open>
  White space is a matter of characters, not of bytes: \<open>chars\<close> cuts a string into its
  characters, each the bytes of one UTF-8 sequence (a lead byte and the continuation
  bytes it announces). A byte from \<open>0x80\<close> on that belongs to no sequence, which
  well-formed UTF-8 does not have, is a character of its own, read as the Latin-1
  character of that code.
\<close>

definition is_cont :: "char \<Rightarrow> bool" where
  "is_cont c = (0x80 \<le> (of_char c :: nat) \<and> (of_char c :: nat) < 0xC0)"

definition tail_len :: "char \<Rightarrow> nat" where
  "tail_len c =
     (if (of_char c :: nat) < 0xC0 then 0 else if (of_char c :: nat) < 0xE0 then 1
      else if (of_char c :: nat) < 0xF0 then 2 else 3)"

function chars :: "string \<Rightarrow> string list" where
  "chars [] = []"
| "chars (c # cs) =
     (c # takeWhile is_cont (take (tail_len c) cs))
     # chars (drop (length (takeWhile is_cont (take (tail_len c) cs))) cs)"
  by pat_completeness auto
termination
  by (relation "measure length") auto

text \<open>
  The white space of JavaScript, which \<^verbatim>\<open>parseFloat\<close>, \<^verbatim>\<open>trim\<close> and \<^verbatim>\<open>\s\<close> share: TAB, LF, VT,
  FF, CR, SP, U+00A0, U+1680, U+2000 to U+200A, U+2028, U+2029, U+202F, U+205F, U+3000
  and U+FEFF; the last entry is U+00A0 as a Latin-1 byte.
\<close>

definition white_space :: "string list" where
  "white_space =
     [[CHR 0x09], [CHR 0x0A], [CHR 0x0B], [CHR 0x0C], [CHR 0x0D], [CHR 0x20],
      [CHR 0xC2, CHR 0xA0],
      [CHR 0xE1, CHR 0x9A, CHR 0x80],
      [CHR 0xE2, CHR 0x80, CHR 0x80], [CHR 0xE2, CHR 0x80, CHR 0x81],
      [CHR 0xE2, CHR 0x80, CHR 0x82], [CHR 0xE2, CHR 0x80, CHR 0x83],
      [CHR 0xE2, CHR 0x80, CHR 0x84], [CHR 0xE2, CHR 0x80, CHR 0x85],
      [CHR 0xE2, CHR 0x80, CHR 0x86], [CHR 0xE2, CHR 0x80, CHR 0x87],
      [CHR 0xE2, CHR 0x80, CHR 0x88], [CHR 0xE2, CHR 0x80, CHR 0x89],
      [CHR 0xE2, CHR 0x80, CHR 0x8A],
      [CHR 0xE2, CHR 0x80, CHR 0xA8], [CHR 0xE2, CHR 0x80, CHR 0xA9],
      [CHR 0xE2, CHR 0x80, CHR 0xAF],
      [CHR 0xE2, CHR 0x81, CHR 0x9F],
      [CHR 0xE3, CHR 0x80, CHR 0x80],
      [CHR 0xEF, CHR 0xBB, CHR 0xBF],
      [CHR 0xA0]]"

definition is_ws :: "string \<Rightarrow> bool" where
  "is_ws ch = (ch \<in> set white_space)"

definition trim :: "string \<Rightarrow> string" where
  "trim s = concat (rev (dropWhile is_ws (rev (dropWhile is_ws (chars s)))))"

text \<open>
  \<^verbatim>\<open>s.split(/\s+/)\<close>: the pieces between maximal runs of white space. \<open>split_ws cur chs\<close>
  scans the characters \<open>chs\<close> with the current piece \<open>cur\<close>; a string without white
  space is one piece, so the empty string splits into one empty piece.
\<close>

function split_ws :: "string \<Rightarrow> string list \<Rightarrow> string list" where
  "split_ws cur [] = [cur]"
| "split_ws cur (ch # chs) =
     (if is_ws ch then cur # split_ws [] (dropWhile is_ws chs) else split_ws (cur @ ch) chs)"
  by pat_completeness auto
termination
  by (relation "measure (\<lambda>(cur, chs). length chs)")
    (auto simp: length_dropWhile_le le_imp_less_Suc)

fun join :: "string \<Rightarrow> string list \<Rightarrow> string" where
  "join sep [] = []"
| "join sep [x] = x"
| "join sep (x # y # ys) = x @ sep @ join sep (y # ys)"

definition is_digit :: "char \<Rightarrow> bool" where
  "is_digit c = (c \<in> set ''0123456789'')"

definition digit_val :: "char \<Rightarrow> int" where
  "digit_val c = of_char c - 48"

definition digits_val :: "string \<Rightarrow> int" where
  "digits_val ds = foldl (\<lambda>acc c. 10 * acc + digit_val c) 0 ds"

definition pow10 :: "int \<Rightarrow> rat" where
  "pow10 e = (if 0 \<le> e then 10 ^ nat e else 1 / 10 ^ nat (- e))"

text \<open>An optional sign: whether it is a minus, and the rest of the string.\<close>

fun take_sign :: "string \<Rightarrow> bool \<times> string" where
  "take_sign [] = (False, [])"
| "take_sign (c # cs) =
     (if c = CHR ''-'' then (True, cs) else if c = CHR ''+'' then (False, cs)
      else (False, c # cs))"

text \<open>
  The exponent part \<^verbatim>\<open>e\<close>/\<^verbatim>\<open>E\<close>, optional sign, digits; it counts only when at least one
  digit follows.
\<close>

definition exponent_part :: "string \<Rightarrow> int" where
  "exponent_part s =
     (case s of
        [] \<Rightarrow> 0
      | c # cs \<Rightarrow>
          if c = CHR ''e'' \<or> c = CHR ''E'' then
            (let (neg, r) = take_sign cs; ds = takeWhile is_digit r
             in if ds = [] then 0
                else if neg then - digits_val ds else digits_val ds)
          else 0)"

text \<open>
  \<^verbatim>\<open>parseFloat\<close> on a string: skip leading white space, then read the longest prefix
  that is a decimal literal (\<^verbatim>\<open>Infinity\<close>, or digits with an optional fraction and
  exponent); \<open>NaN\<close> when there is none. The value read is rounded to a double.
\<close>

definition parseFloat_str :: "string \<Rightarrow> jsnum" where
  "parseFloat_str s =
     (let (neg, s2) = take_sign (concat (dropWhile is_ws (chars s)))
      in if take 8 s2 = ''Infinity'' then (if neg then NegInf else PosInf)
         else
           let ip = takeWhile is_digit s2;
               s3 = dropWhile is_digit s2;
               fp = (case s3 of [] \<Rightarrow> []
                     | c # cs \<Rightarrow> if c = CHR ''.'' then takeWhile is_digit cs else []);
               s4 = (case s3 of [] \<Rightarrow> []
                     | c # cs \<Rightarrow> if c = CHR ''.'' then dropWhile is_digit cs else s3)
           in if ip = [] \<and> fp = [] then NaN
              else
                let m = of_int (digits_val (ip @ fp)) * pow10 (exponent_part s4 - int (length fp))
                in to_double (if neg then - m else m))"

subsection \<open>JSON values, \<^verbatim>\<open>undefined\<close>, truthiness and property reads\<close>

text \<open>
  A field of the submitted form is a JSON scalar; a provider's reply is any JSON value.
  \<^verbatim>\<open>undefined\<close> is \<open>None\<close> of an option type. An object is the list of its properties,
  read with \<open>map_of\<close>.
\<close>

datatype scalar = SNull | SBool bool | SNum jsnum | SStr string

datatype json = JAtom scalar | JArr "json list" | JObj "(string \<times> json) list"

abbreviation str :: "string \<Rightarrow> json" where
  "str s \<equiv> JAtom (SStr s)"

abbreviation null :: json where
  "null \<equiv> JAtom SNull"

fun truthy :: "scalar \<Rightarrow> bool" where
  "truthy SNull = False"
| "truthy (SBool b) = b"
| "truthy (SNum n) = (n \<noteq> NaN \<and> n \<noteq> Fin 0)"
| "truthy (SStr s) = (s \<noteq> [])"

fun truthy_json :: "json \<Rightarrow> bool" where
  "truthy_json (JAtom a) = truthy a"
| "truthy_json (JArr xs) = True"
| "truthy_json (JObj kvs) = True"

fun truthy_val :: "json option \<Rightarrow> bool" where
  "truthy_val None = False"
| "truthy_val (Some v) = truthy_json v"

text \<open>An environment variable is a string or \<^verbatim>\<open>undefined\<close>; it is truthy when set and not empty.\<close>

fun is_set :: "string option \<Rightarrow> bool" where
  "is_set None = False"
| "is_set (Some s) = (s \<noteq> [])"

text \<open>\<^verbatim>\<open>a || b\<close> on values that may be \<^verbatim>\<open>undefined\<close>.\<close>

definition or_else :: "json option \<Rightarrow> json option \<Rightarrow> json option" where
  "or_else a b = (if truthy_val a then a else b)"

text \<open>
  \<^verbatim>\<open>parseFloat(x)\<close> converts \<open>x\<close> to a string first: \<^verbatim>\<open>null\<close> and the booleans give text
  that is no number, and a number is printed to a literal that reads back as itself.
\<close>

fun parseFloat :: "scalar \<Rightarrow> jsnum" where
  "parseFloat (SStr s) = parseFloat_str s"
| "parseFloat (SNum n) = n"
| "parseFloat (SBool b) = NaN"
| "parseFloat SNull = NaN"

text \<open>
  \<open>get v k\<close> is the property read \<^verbatim>\<open>v.k\<close> on a value \<open>v\<close> that is neither \<^verbatim>\<open>null\<close> nor
  \<^verbatim>\<open>undefined\<close>, for the property names the handlers use (none of them is a built-in
  property of strings, numbers, booleans or arrays). \<open>opt_get\<close> is \<^verbatim>\<open>v?.k\<close> and
  \<open>opt_first\<close> is \<^verbatim>\<open>v?.[0]\<close>.
\<close>

fun get :: "json \<Rightarrow> string \<Rightarrow> json option" where
  "get (JObj kvs) k = map_of kvs k"
| "get (JArr xs) k = None"
| "get (JAtom a) k = None"

fun opt_get :: "json option \<Rightarrow> string \<Rightarrow> json option" where
  "opt_get None k = None"
| "opt_get (Some (JAtom SNull)) k = None"
| "opt_get (Some v) k = get v k"

fun opt_first :: "json option \<Rightarrow> json option" where
  "opt_first (Some (JArr (x # xs))) = Some x"
| "opt_first (Some (JObj kvs)) = map_of kvs ''0''"
| "opt_first (Some (JAtom (SStr (c # cs)))) = Some (str [c])"
| "opt_first _ = None"

section \<open>Requests, configuration, outbound calls and responses\<close>

text \<open>
  \<^verbatim>\<open>process.env\<close>: the nine variables the handlers read. The three URL variables carry
  the suffix \<open>_env\<close>; the handlers' constants of the same name add a default.
\<close>

record process_env =
  TABBY_SECRET_KEY :: "string option"
  TABBY_PUBLIC_KEY :: "string option"
  TABBY_MERCHANT_CODE :: "string option"
  STRIPE_SECRET_KEY :: "string option"
  SUCCESS_URL_env :: "string option"
  FAILURE_URL_env :: "string option"
  CANCEL_URL_env :: "string option"
  GHL_API_KEY :: "string option"
  GHL_LOCATION_ID :: "string option"

text \<open>\<^verbatim>\<open>process.env.X || "default"\<close>.\<close>

fun env_or :: "string option \<Rightarrow> string \<Rightarrow> string" where
  "env_or None d = d"
| "env_or (Some s) d = (if s = [] then d else s)"

text \<open>\<^verbatim>\<open>`Bearer ${key}`\<close>: an unset key is printed as the text \<^verbatim>\<open>undefined\<close>.\<close>

fun bearer :: "string option \<Rightarrow> string" where
  "bearer None = ''Bearer undefined''"
| "bearer (Some k) = ''Bearer '' @ k"

text \<open>
  The request: its method and \<^verbatim>\<open>req.body\<close>. The body is the parsed form object, a map
  from property names to scalars, or \<^verbatim>\<open>undefined\<close> (\<open>None\<close>) when the request carries no
  body; destructuring \<^verbatim>\<open>undefined\<close> throws a \<^verbatim>\<open>TypeError\<close>.
\<close>

type_synonym body = "string \<Rightarrow> scalar option"

record request =
  req_method :: string
  req_body :: "body option"

text \<open>A piece of a template literal: literal text, or the string conversion of a value.\<close>

datatype piece = Lit string | Conv "json option"

type_synonym template = "piece list"

text \<open>
  The object literals handed to the providers. Amounts are kept as the number whose
  \<^verbatim>\<open>toFixed(2)\<close> text (Tabby) or value (Stripe) is sent.
\<close>

record tabby_payload =
  pay_amount :: jsnum
  pay_currency :: string
  pay_description :: scalar
  buyer_name :: scalar
  buyer_email :: scalar
  buyer_phone :: scalar
  shipping_city :: scalar
  shipping_address :: scalar
  shipping_zip :: scalar
  order_reference_id :: scalar
  order_item_title :: scalar
  order_item_quantity :: nat
  order_item_unit_price :: jsnum
  order_item_reference_id :: string
  order_item_category :: scalar
  lang :: string
  merchant_code :: "string option"
  merchant_success :: string
  merchant_failure :: string
  merchant_cancel :: string

record ghl_payload =
  locationId :: "string option"
  firstName :: string
  lastName :: string
  ghl_email :: scalar
  ghl_phone :: scalar
  address1 :: scalar
  ghl_city :: scalar
  postalCode :: scalar
  ghl_country :: scalar
  ghl_source :: string
  tags :: "template list"

record stripe_params =
  payment_method_types :: "string list"
  customer_email :: scalar
  price_currency :: string
  product_name :: scalar
  product_description :: scalar
  unit_amount :: jsnum
  line_quantity :: nat
  mode :: string
  success_url :: string
  cancel_url :: string
  meta_reference_id :: scalar
  meta_customer_name :: scalar
  meta_customer_phone :: scalar
  meta_ghl_contact_id :: "json option"
  allowed_countries :: "string list"

text \<open>
  The outbound calls, one constructor for each call site:
  \<^item> \<open>GhlUpsert auth p\<close>: \<^verbatim>\<open>POST https://services.leadconnectorhq.com/contacts/\<close>;
  \<^item> \<open>StripeCreate key p\<close>: \<^verbatim>\<open>new Stripe(key).checkout.sessions.create(p)\<close>;
  \<^item> \<open>GhlNote auth id text\<close>: \<^verbatim>\<open>POST .../contacts/${id}/notes\<close>;
  \<^item> \<open>GhlTags auth id ts\<close>: \<^verbatim>\<open>PUT .../contacts/${id}\<close> with the tags \<open>ts\<close>;
  \<^item> \<open>TabbyCheckout auth p\<close>: \<^verbatim>\<open>POST https://api.tabby.ai/api/v2/checkout\<close>.
\<close>

datatype call =
    GhlUpsert string ghl_payload
  | StripeCreate "string option" stripe_params
  | GhlNote string json template
  | GhlTags string json "string list"
  | TabbyCheckout string tabby_payload

text \<open>
  What the outside world does with a call: the awaited promise rejects (\<open>Throws\<close>, with
  the error's message; this covers a failing \<^verbatim>\<open>fetch\<close> and a reply that is not JSON), or
  it yields a value (the parsed JSON reply, or Stripe's session object). \<open>date_now\<close> is the
  value of \<^verbatim>\<open>Date.now()\<close>, in milliseconds.
\<close>

datatype outcome = Throws string | Returns json

record world =
  date_now :: int
  respond :: "call \<Rightarrow> outcome"

text \<open>
  What the handler sends back: \<^verbatim>\<open>res.status(n).end()\<close> or \<^verbatim>\<open>res.status(n).json(obj)\<close>,
  with the object literal \<open>obj\<close> as the list of its properties (a property whose value
  is \<^verbatim>\<open>undefined\<close> is dropped when the object is serialised). The three CORS headers are
  the same on every path and are left out.
\<close>

datatype response = End nat | Json nat "(string \<times> json option) list"

fun status :: "response \<Rightarrow> nat" where
  "status (End n) = n"
| "status (Json n obj) = n"

fun field :: "response \<Rightarrow> string \<Rightarrow> json option" where
  "field (End n) k = None"
| "field (Json n obj) k = (case map_of obj k of None \<Rightarrow> None | Some v \<Rightarrow> v)"

fun is_stripe_call :: "call \<Rightarrow> bool" where
  "is_stripe_call (StripeCreate key p) = True"
| "is_stripe_call c = False"

fun is_tabby_call :: "call \<Rightarrow> bool" where
  "is_tabby_call (TabbyCheckout auth p) = True"
| "is_tabby_call c = False"

fun is_upsert_call :: "call \<Rightarrow> bool" where
  "is_upsert_call (GhlUpsert auth p) = True"
| "is_upsert_call c = False"

fun is_note_call :: "call \<Rightarrow> bool" where
  "is_note_call (GhlNote auth i t) = True"
| "is_note_call c = False"

fun is_tags_call :: "call \<Rightarrow> bool" where
  "is_tags_call (GhlTags auth i ts) = True"
| "is_tags_call c = False"

section \<open>The fields of the form\<close>

text \<open>
  Both handlers destructure \<^verbatim>\<open>req.body\<close> with defaults; a default applies when the
  property is \<^verbatim>\<open>undefined\<close>, not when it is \<^verbatim>\<open>null\<close> or empty.
\<close>

fun dflt :: "scalar option \<Rightarrow> scalar \<Rightarrow> scalar" where
  "dflt None d = d"
| "dflt (Some v) d = v"

text \<open>The decimal digits of a number that is not negative, as \<^verbatim>\<open>Date.now()\<close> is.\<close>

definition digit_char :: "int \<Rightarrow> char" where
  "digit_char d = char_of (48 + d)"

function dec_digits :: "int \<Rightarrow> string" where
  "dec_digits n =
     (if n < 10 then [digit_char n] else dec_digits (n div 10) @ [digit_char (n mod 10)])"
  by pat_completeness auto
termination
  by (relation "measure nat") auto

declare dec_digits.simps [simp del]

definition payment_method :: "body \<Rightarrow> scalar" where
  "payment_method b = dflt (b ''payment_method'') (SStr ''tabby'')"

definition name :: "body \<Rightarrow> scalar" where
  "name b = dflt (b ''name'') (SStr ''Customer'')"

definition email :: "body \<Rightarrow> scalar" where
  "email b = dflt (b ''email'') (SStr [])"

definition phone :: "body \<Rightarrow> scalar" where
  "phone b = dflt (b ''phone'') (SStr [])"

definition amount :: "body \<Rightarrow> scalar" where
  "amount b = dflt (b ''amount'') (SStr ''0.00'')"

definition description :: "body \<Rightarrow> scalar" where
  "description b = dflt (b ''description'') (SStr ''Purchase'')"

text \<open>The default order reference is \<^verbatim>\<open>`ORD-${Date.now()}`\<close>.\<close>

definition reference_id :: "world \<Rightarrow> body \<Rightarrow> scalar" where
  "reference_id w b = dflt (b ''reference_id'') (SStr (''ORD-'' @ dec_digits (date_now w)))"

definition item_title :: "body \<Rightarrow> scalar" where
  "item_title b = dflt (b ''item_title'') (SStr ''Product'')"

definition item_category :: "body \<Rightarrow> scalar" where
  "item_category b = dflt (b ''item_category'') (SStr ''General'')"

definition address :: "body \<Rightarrow> scalar" where
  "address b = dflt (b ''address'') (SStr [])"

definition city :: "body \<Rightarrow> scalar" where
  "city b = dflt (b ''city'') (SStr ''Dubai'')"

definition zip_code :: "body \<Rightarrow> scalar" where
  "zip_code b = dflt (b ''zip'') (SStr ''00000'')"

definition country :: "body \<Rightarrow> scalar" where
  "country b = dflt (b ''country'') (SStr ''AE'')"

section \<open>The Tabby reply\<close>

text \<open>
  \<^verbatim>\<open>tabbyData.configuration?.available_products?.installments?.[0]\<close>, its \<^verbatim>\<open>web_url\<close>,
  and the rejection reason with its fallback; \<open>tabbyData\<close> is not \<^verbatim>\<open>null\<close> here.
\<close>

definition installments :: "json \<Rightarrow> json option" where
  "installments tabbyData =
     opt_first (opt_get (opt_get (get tabbyData ''configuration'') ''available_products'')
                  ''installments'')"

definition webUrl :: "json \<Rightarrow> json option" where
  "webUrl tabbyData = opt_get (installments tabbyData) ''web_url''"

definition rejection_reason :: "json \<Rightarrow> json option" where
  "rejection_reason tabbyData =
     or_else
       (opt_get
          (opt_first (opt_get (opt_get (get tabbyData ''configuration'') ''products'')
                        ''installments''))
          ''rejection_reason'')
       (Some (str ''unknown''))"

definition yes :: "json option" where
  "yes = Some (JAtom (SBool True))"

definition no :: "json option" where
  "no = Some (JAtom (SBool False))"

section \<open>\<^verbatim>\<open>src/api/create-session.js\<close>: the Tabby handler\<close>

definition payload :: "process_env \<Rightarrow> world \<Rightarrow> body \<Rightarrow> tabby_payload" where
  "payload env w b =
     \<lparr> pay_amount = parseFloat (amount b),
       pay_currency = ''AED'',
       pay_description = description b,
       buyer_name = name b,
       buyer_email = email b,
       buyer_phone = phone b,
       shipping_city = SStr ''Dubai'',
       shipping_address = SStr ''N/A'',
       shipping_zip = SStr ''00000'',
       order_reference_id = reference_id w b,
       order_item_title = item_title b,
       order_item_quantity = 1,
       order_item_unit_price = parseFloat (amount b),
       order_item_reference_id = ''ITEM-001'',
       order_item_category = item_category b,
       lang = ''en'',
       merchant_code = TABBY_MERCHANT_CODE env,
       merchant_success = env_or (SUCCESS_URL_env env) ''https://your-ghl-site.com/thank-you'',
       merchant_failure = env_or (FAILURE_URL_env env) ''https://your-ghl-site.com/payment-failed'',
       merchant_cancel = env_or (CANCEL_URL_env env) ''https://your-ghl-site.com/payment-cancelled'' \<rparr>"

text \<open>
  The \<^verbatim>\<open>catch\<close> block of the handler. Reading a property of \<^verbatim>\<open>null\<close> throws a
  \<^verbatim>\<open>TypeError\<close>, whose message here is the one of Node.js. A request without a body makes
  the destructuring of \<^verbatim>\<open>req.body\<close> throw at its first property: \<open>no_body\<close> is the message
  for reading that property of \<^verbatim>\<open>undefined\<close>.
\<close>

definition caught :: "string \<Rightarrow> response" where
  "caught msg =
     Json 500 [(''error'', Some (str ''Internal server error while creating Tabby session.'')),
               (''details'', Some (str msg))]"

definition null_read :: "string \<Rightarrow> string" where
  "null_read k = ''Cannot read properties of null (reading '' @ [CHR 0x27] @ k @ [CHR 0x27] @ '')''"

definition no_body :: "string \<Rightarrow> string" where
  "no_body k =
     ''Cannot read properties of undefined (reading '' @ [CHR 0x27] @ k @ [CHR 0x27] @ '')''"

text \<open>Lines 107 to 139: the three-way reading of the reply's \<^verbatim>\<open>status\<close>.\<close>

definition tabby_response :: "json \<Rightarrow> response" where
  "tabby_response tabbyData =
     (case tabbyData of
        JAtom SNull \<Rightarrow> caught (null_read ''status'')
      | _ \<Rightarrow>
        if get tabbyData ''status'' = Some (str ''created'') then
          (let url = or_else (opt_get (installments tabbyData) ''web_url'')
                       (opt_get
                          (opt_first
                             (opt_get (opt_get (get tabbyData ''configuration'')
                                         ''available_products'') ''installments''))
                          ''web_url'')
           in if truthy_val url then
                Json 200 [(''success'', yes),
                          (''redirect_url'', url),
                          (''payment_id'', opt_get (get tabbyData ''payment'') ''id''),
                          (''session_id'', get tabbyData ''id'')]
              else
                Json 200 [(''success'', no),
                          (''error'', Some (str ''Session created but no redirect URL found. Check Tabby dashboard.'')),
                          (''tabby_response'', Some tabbyData)])
        else if get tabbyData ''status'' = Some (str ''rejected'') then
          Json 200 [(''success'', no),
                    (''error'', Some (str ''Tabby was unable to approve this purchase. The customer may need to use an alternative payment method.'')),
                    (''rejection_reason'', rejection_reason tabbyData)]
        else
          Json 200 [(''success'', no),
                    (''error'', Some (str ''Unexpected response from Tabby.'')),
                    (''tabby_response'', Some tabbyData)])"

definition handler :: "process_env \<Rightarrow> world \<Rightarrow> request \<Rightarrow> response \<times> call list" where
  "handler env w req =
     (if req_method req = ''OPTIONS'' then (End 200, [])
      else if req_method req \<noteq> ''POST'' then
        (Json 405 [(''error'', Some (str ''Method not allowed''))], [])
      else if \<not> is_set (TABBY_SECRET_KEY env) \<or> \<not> is_set (TABBY_MERCHANT_CODE env) then
        (Json 500 [(''error'', Some (str ''Server misconfigured: missing Tabby keys''))], [])
      else
        case req_body req of
          None \<Rightarrow> (caught (no_body ''name''), [])
        | Some b \<Rightarrow>
            if \<not> truthy (phone b) \<or> \<not> truthy (amount b) \<or> le_zero (parseFloat (amount b)) then
              (Json 400 [(''error'', Some (str ''Missing required fields: phone and amount are required.''))], [])
            else
              let c = TabbyCheckout (bearer (TABBY_PUBLIC_KEY env)) (payload env w b)
              in case respond w c of
                   Throws msg \<Rightarrow> (caught msg, [c])
                 | Returns tabbyData \<Rightarrow> (tabby_response tabbyData, [c]))"

section \<open>\<^verbatim>\<open>src/unnamed/part_000\<close>: the unified handler\<close>

subsection \<open>Step 1: create or update the CRM contact\<close>

definition ghlPayload :: "process_env \<Rightarrow> body \<Rightarrow> string \<Rightarrow> ghl_payload" where
  "ghlPayload env b nm =
     (let nameParts = split_ws [] (chars (trim nm))
      in \<lparr> locationId = GHL_LOCATION_ID env,
            firstName = (case nameParts of [] \<Rightarrow> ''Customer''
                         | p # ps \<Rightarrow> if p = [] then ''Customer'' else p),
            lastName = join '' '' (drop 1 nameParts),
            ghl_email = email b,
            ghl_phone = phone b,
            address1 = address b,
            ghl_city = city b,
            postalCode = zip_code b,
            ghl_country = country b,
            ghl_source = ''Checkout Page'',
            tags = [[Lit ''checkout-started''], [Lit ''ems-suit''],
                    [Lit ''payment-'', Conv (Some (JAtom (payment_method b)))]] \<rparr>)"

text \<open>
  Lines 71 to 117. The result is \<open>ghlContactId\<close> and the calls made. Everything sits in
  a \<^verbatim>\<open>try\<close> whose \<^verbatim>\<open>catch\<close> only logs: \<^verbatim>\<open>name.trim()\<close> throws when \<open>name\<close> is no string
  (before any call), the call may throw, and reading \<^verbatim>\<open>ghlData.contact\<close> throws when the
  reply is \<^verbatim>\<open>null\<close>; in each case \<open>ghlContactId\<close> stays \<^verbatim>\<open>null\<close>.
\<close>

definition upsert_contact :: "process_env \<Rightarrow> world \<Rightarrow> body \<Rightarrow> json \<times> call list" where
  "upsert_contact env w b =
     (if is_set (GHL_API_KEY env) \<and> is_set (GHL_LOCATION_ID env) then
        (case name b of
           SStr nm \<Rightarrow>
             (let c = GhlUpsert (bearer (GHL_API_KEY env)) (ghlPayload env b nm)
              in case respond w c of
                   Throws msg \<Rightarrow> (null, [c])
                 | Returns ghlData \<Rightarrow>
                     (case ghlData of
                        JAtom SNull \<Rightarrow> (null, [c])
                      | _ \<Rightarrow>
                        (case get ghlData ''contact'' of
                           None \<Rightarrow> (null, [c])
                         | Some contact \<Rightarrow>
                             if \<not> truthy_json contact then (null, [c])
                             else (case get contact ''id'' of
                                     None \<Rightarrow> (null, [c])
                                   | Some i \<Rightarrow> if truthy_json i then (i, [c]) else (null, [c])))))
         | _ \<Rightarrow> (null, []))
      else (null, []))"

text \<open>
  A call in a \<^verbatim>\<open>try\<close> whose \<^verbatim>\<open>catch\<close> only logs, with its result unused (the note and the
  tag update): the call is made, and nothing of its outcome is kept.
\<close>

definition attempt :: "world \<Rightarrow> call \<Rightarrow> call list" where
  "attempt w c = (case respond w c of Throws msg \<Rightarrow> [c] | Returns v \<Rightarrow> [c])"

definition caught_unified :: "string \<Rightarrow> response" where
  "caught_unified msg =
     Json 500 [(''error'', Some (str ''Internal server error.'')),
               (''details'', Some (str msg))]"

definition nl :: string where
  "nl = [CHR 0x0A]"

subsection \<open>Step 2, Stripe\<close>

definition stripe_session_params ::
  "process_env \<Rightarrow> world \<Rightarrow> body \<Rightarrow> json \<Rightarrow> stripe_params" where
  "stripe_session_params env w b ghlContactId =
     \<lparr> payment_method_types = [''card''],
       customer_email = email b,
       price_currency = ''aed'',
       product_name = item_title b,
       product_description = description b,
       unit_amount = Math_round (js_mul (parseFloat (amount b)) (Fin 100)),
       line_quantity = 1,
       mode = ''payment'',
       success_url = env_or (SUCCESS_URL_env env) ''https://your-site.com/thank-you''
                       @ ''?session_id={CHECKOUT_SESSION_ID}&method=stripe'',
       cancel_url = env_or (CANCEL_URL_env env) ''https://your-site.com/payment-cancelled''
                      @ ''?method=stripe'',
       meta_reference_id = reference_id w b,
       meta_customer_name = name b,
       meta_customer_phone = phone b,
       meta_ghl_contact_id = or_else (Some ghlContactId) (Some (str [])),
       allowed_countries = [''AE'', ''SA'', ''KW'', ''BH'', ''QA'', ''OM'', ''EG''] \<rparr>"

definition stripe_note :: "world \<Rightarrow> body \<Rightarrow> json \<Rightarrow> template" where
  "stripe_note w b session =
     [Lit ([CHR 0xF0, CHR 0x9F, CHR 0x92, CHR 0xB3] @ '' Stripe Checkout Started'' @ nl
           @ ''- Product: ''),
      Conv (Some (JAtom (item_title b))),
      Lit (nl @ ''- Amount: ''),
      Conv (Some (JAtom (amount b))),
      Lit ('' AED'' @ nl @ ''- Order Ref: ''),
      Conv (Some (JAtom (reference_id w b))),
      Lit (nl @ ''- Stripe Session: ''),
      Conv (get session ''id''),
      Lit (nl @ ''- Status: Awaiting Payment'')]"

text \<open>
  Lines 124 to 190. A session that is \<^verbatim>\<open>null\<close> makes \<^verbatim>\<open>session.url\<close> throw (and
  \<^verbatim>\<open>session.id\<close>, inside the note's \<^verbatim>\<open>try\<close>, before the note is sent).
\<close>

definition stripe_checkout ::
  "process_env \<Rightarrow> world \<Rightarrow> body \<Rightarrow> json \<Rightarrow> response \<times> call list" where
  "stripe_checkout env w b ghlContactId =
     (if \<not> is_set (STRIPE_SECRET_KEY env) then
        (Json 500 [(''error'', Some (str ''Stripe is not configured.''))], [])
      else
        let c = StripeCreate (STRIPE_SECRET_KEY env) (stripe_session_params env w b ghlContactId)
        in case respond w c of
             Throws msg \<Rightarrow> (caught_unified msg, [c])
           | Returns session \<Rightarrow>
               (case session of
                  JAtom SNull \<Rightarrow> (caught_unified (null_read ''url''), [c])
                | _ \<Rightarrow>
                  (Json 200 [(''success'', yes),
                             (''redirect_url'', get session ''url''),
                             (''session_id'', get session ''id''),
                             (''ghl_contact_id'', Some ghlContactId),
                             (''payment_method'', Some (str ''stripe''))],
                   c # (if truthy_json ghlContactId \<and> is_set (GHL_API_KEY env) then
                          attempt w (GhlNote (bearer (GHL_API_KEY env)) ghlContactId
                                       (stripe_note w b session))
                        else []))))"

subsection \<open>Step 2, Tabby\<close>

definition tabbyPayload :: "process_env \<Rightarrow> world \<Rightarrow> body \<Rightarrow> tabby_payload" where
  "tabbyPayload env w b =
     \<lparr> pay_amount = parseFloat (amount b),
       pay_currency = ''AED'',
       pay_description = description b,
       buyer_name = name b,
       buyer_email = email b,
       buyer_phone = phone b,
       shipping_city = city b,
       shipping_address = (if truthy (address b) then address b else SStr ''N/A''),
       shipping_zip = zip_code b,
       order_reference_id = reference_id w b,
       order_item_title = item_title b,
       order_item_quantity = 1,
       order_item_unit_price = parseFloat (amount b),
       order_item_reference_id = ''ITEM-001'',
       order_item_category = item_category b,
       lang = ''en'',
       merchant_code = TABBY_MERCHANT_CODE env,
       merchant_success = env_or (SUCCESS_URL_env env) ''https://your-site.com/thank-you''
                            @ ''?method=tabby'',
       merchant_failure = env_or (FAILURE_URL_env env) ''https://your-site.com/payment-failed''
                            @ ''?method=tabby'',
       merchant_cancel = env_or (CANCEL_URL_env env) ''https://your-site.com/payment-cancelled''
                           @ ''?method=tabby'' \<rparr>"

definition tabby_note :: "world \<Rightarrow> body \<Rightarrow> json \<Rightarrow> template" where
  "tabby_note w b tabbyData =
     [Lit ([CHR 0xF0, CHR 0x9F, CHR 0x9B, CHR 0x92] @ '' Tabby Checkout Started'' @ nl
           @ ''- Product: ''),
      Conv (Some (JAtom (item_title b))),
      Lit (nl @ ''- Amount: ''),
      Conv (Some (JAtom (amount b))),
      Lit ('' AED'' @ nl @ ''- Order Ref: ''),
      Conv (Some (JAtom (reference_id w b))),
      Lit (nl @ ''- Session ID: ''),
      Conv (or_else (get tabbyData ''id'') (Some (str ''N/A''))),
      Lit (nl @ ''- Payment ID: ''),
      Conv (or_else (opt_get (get tabbyData ''payment'') ''id'') (Some (str ''N/A''))),
      Lit (nl @ ''- Status: Awaiting Payment'')]"

text \<open>Lines 246 to 326: what is done with a reply \<open>tabbyData\<close> of the Tabby call.\<close>

definition tabby_outcome ::
  "process_env \<Rightarrow> world \<Rightarrow> body \<Rightarrow> json \<Rightarrow> json \<Rightarrow> response \<times> call list" where
  "tabby_outcome env w b ghlContactId tabbyData =
     (case tabbyData of
        JAtom SNull \<Rightarrow> (caught_unified (null_read ''status''), [])
      | _ \<Rightarrow>
        if get tabbyData ''status'' = Some (str ''created'') then
          ((if truthy_val (webUrl tabbyData) then
              Json 200 [(''success'', yes),
                        (''redirect_url'', webUrl tabbyData),
                        (''payment_id'', opt_get (get tabbyData ''payment'') ''id''),
                        (''session_id'', get tabbyData ''id''),
                        (''ghl_contact_id'', Some ghlContactId),
                        (''payment_method'', Some (str ''tabby''))]
            else
              Json 200 [(''success'', no),
                        (''error'', Some (str ''Session created but no redirect URL found.'')),
                        (''tabby_response'', Some tabbyData)]),
           (if truthy_json ghlContactId \<and> is_set (GHL_API_KEY env) then
              attempt w (GhlNote (bearer (GHL_API_KEY env)) ghlContactId
                           (tabby_note w b tabbyData))
            else []))
        else if get tabbyData ''status'' = Some (str ''rejected'') then
          (Json 200 [(''success'', no),
                     (''error'', Some (str ''Tabby was unable to approve this purchase. Please try paying with a card instead.'')),
                     (''rejection_reason'', rejection_reason tabbyData)],
           (if truthy_json ghlContactId \<and> is_set (GHL_API_KEY env) then
              attempt w (GhlTags (bearer (GHL_API_KEY env)) ghlContactId
                           [''checkout-started'', ''ems-suit'', ''tabby-rejected''])
            else []))
        else
          (Json 200 [(''success'', no),
                     (''error'', Some (str ''Unexpected response from Tabby.'')),
                     (''tabby_response'', Some tabbyData)],
           []))"

text \<open>Lines 193 to 244: the configuration check, the payload and the call.\<close>

definition tabby_checkout ::
  "process_env \<Rightarrow> world \<Rightarrow> body \<Rightarrow> json \<Rightarrow> response \<times> call list" where
  "tabby_checkout env w b ghlContactId =
     (if \<not> is_set (TABBY_SECRET_KEY env) \<or> \<not> is_set (TABBY_MERCHANT_CODE env) then
        (Json 500 [(''error'', Some (str ''Tabby is not configured.''))], [])
      else
        let c = TabbyCheckout (bearer (TABBY_PUBLIC_KEY env)) (tabbyPayload env w b)
        in case respond w c of
             Throws msg \<Rightarrow> (caught_unified msg, [c])
           | Returns tabbyData \<Rightarrow>
               (fst (tabby_outcome env w b ghlContactId tabbyData),
                c # snd (tabby_outcome env w b ghlContactId tabbyData)))"

subsection \<open>The handler\<close>

text \<open>
  The result is the response and the outbound calls made, in order: those of step 1,
  then those of step 2.
\<close>

definition handler_unified ::
  "process_env \<Rightarrow> world \<Rightarrow> request \<Rightarrow> response \<times> call list" where
  "handler_unified env w req =
     (if req_method req = ''OPTIONS'' then (End 200, [])
      else if req_method req \<noteq> ''POST'' then
        (Json 405 [(''error'', Some (str ''Method not allowed''))], [])
      else
        case req_body req of
          None \<Rightarrow> (caught_unified (no_body ''payment_method''), [])
        | Some b \<Rightarrow>
            if \<not> truthy (phone b) \<or> \<not> truthy (amount b) \<or> le_zero (parseFloat (amount b)) then
              (Json 400 [(''error'', Some (str ''Missing required fields: phone and amount are required.''))], [])
            else if \<not> truthy (email b) then
              (Json 400 [(''error'', Some (str ''Email is required.''))], [])
            else
              let ghlContactId = fst (upsert_contact env w b);
                  step2 = (if payment_method b = SStr ''stripe''
                           then stripe_checkout env w b ghlContactId
                           else tabby_checkout env w b ghlContactId)
              in (fst step2, snd (upsert_contact env w b) @ snd step2))"

section \<open>Concrete configurations, worlds and requests\<close>

text \<open>
  A fully configured environment, a world that answers the three primary calls as given
  and fails every note and tag call, and a form submission with the given payment
  method, phone and amount.
\<close>

definition demo_env :: process_env where
  "demo_env =
     \<lparr> TABBY_SECRET_KEY = Some ''sk_test'', TABBY_PUBLIC_KEY = Some ''pk_test'',
       TABBY_MERCHANT_CODE = Some ''EMS'', STRIPE_SECRET_KEY = Some ''sk_stripe'',
       SUCCESS_URL_env = None, FAILURE_URL_env = None, CANCEL_URL_env = None,
       GHL_API_KEY = Some ''ghl_key'', GHL_LOCATION_ID = Some ''loc_1'' \<rparr>"

definition demo_world :: "outcome \<Rightarrow> outcome \<Rightarrow> outcome \<Rightarrow> world" where
  "demo_world upsert_reply stripe_reply tabby_reply =
     \<lparr> date_now = 1700000000000,
       respond = (\<lambda>c. case c of
                    GhlUpsert auth p \<Rightarrow> upsert_reply
                  | StripeCreate key p \<Rightarrow> stripe_reply
                  | TabbyCheckout auth p \<Rightarrow> tabby_reply
                  | GhlNote auth i t \<Rightarrow> Throws ''note failed''
                  | GhlTags auth i ts \<Rightarrow> Throws ''tag update failed'') \<rparr>"

definition demo_body :: "string \<Rightarrow> string \<Rightarrow> string \<Rightarrow> body" where
  "demo_body pm ph am =
     [''payment_method'' \<mapsto> SStr pm, ''phone'' \<mapsto> SStr ph,
      ''amount'' \<mapsto> SStr am, ''email'' \<mapsto> SStr ''jane@example.com'',
      ''name'' \<mapsto> SStr ''Jane Doe'']"

definition demo_request :: "string \<Rightarrow> string \<Rightarrow> string \<Rightarrow> request" where
  "demo_request pm ph am = \<lparr> req_method = ''POST'', req_body = Some (demo_body pm ph am) \<rparr>"

text \<open>The same world, except that every note and tag call succeeds.\<close>

definition notes_succeed :: "world \<Rightarrow> world" where
  "notes_succeed w =
     w\<lparr>respond := (\<lambda>c. if is_note_call c \<or> is_tags_call c then Returns null else respond w c)\<rparr>"

definition offline :: world where
  "offline = demo_world (Throws ''offline'') (Throws ''offline'') (Throws ''offline'')"

definition contact_reply :: json where
  "contact_reply = JObj [(''contact'', JObj [(''id'', str ''contact_1'')])]"

definition session_reply :: json where
  "session_reply = JObj [(''id'', str ''cs_test_1''), (''url'', str ''https://stripe/pay/cs_test_1'')]"

definition created_reply :: json where
  "created_reply =
     JObj [(''status'', str ''created''), (''id'', str ''session_1''),
           (''payment'', JObj [(''id'', str ''payment_1'')]),
           (''configuration'',
            JObj [(''available_products'',
                   JObj [(''installments'', JArr [JObj [(''web_url'', str ''https://pay/x'')]])])])]"

definition created_without_url :: json where
  "created_without_url = JObj [(''status'', str ''created''), (''id'', str ''session_1'')]"

definition rejected_reply :: json where
  "rejected_reply =
     JObj [(''status'', str ''rejected''),
           (''configuration'',
            JObj [(''products'',
                   JObj [(''installments'', JArr [JObj [(''rejection_reason'', str ''risky'')]])])])]"

text \<open>The \<^verbatim>\<open>unit_amount\<close> of every Stripe call of a trace.\<close>

fun unit_amounts :: "call list \<Rightarrow> jsnum list" where
  "unit_amounts [] = []"
| "unit_amounts (StripeCreate key p # cs) = unit_amount p # unit_amounts cs"
| "unit_amounts (c # cs) = unit_amounts cs"

section \<open>Evaluation and structure lemmas\<close>

lemma floor_rat_numeral: "\<lfloor>numeral a / numeral b :: rat\<rfloor> = numeral a div numeral b"
  using floor_divide_of_int_eq [of "numeral a" "numeral b", where ?'a = rat] by simp

subsection \<open>Doubles\<close>

text \<open>
  \<open>to_double\<close> rounds correctly: the result of a positive value is a double nearest to
  it (\<open>to_double_pos_nearest\<close>), and it is infinite exactly from \<open>2\<^sup>1\<^sup>0\<^sup>2\<^sup>4 - 2\<^sup>9\<^sup>7\<^sup>0\<close> on
  (\<open>to_double_pos_overflow\<close>). \<open>to_double_pos\<close> evaluates a rounding from the binary
  exponent of the value.
\<close>

lemma pow2_powi: "pow2 e = 2 powi e"
  by (simp add: pow2_def power_int_def power_one_over inverse_eq_divide)

lemma bit_length_nonneg: "0 \<le> bit_length n"
  by (induction n rule: bit_length.induct) (simp add: bit_length.simps)

lemma bit_length_bounds:
  "0 < n \<Longrightarrow> 1 \<le> bit_length n \<and> 2 ^ nat (bit_length n - 1) \<le> n \<and> n < 2 ^ nat (bit_length n)"
proof (induction n rule: bit_length.induct)
  case (1 n)
  have b: "bit_length n = 1 + bit_length (n div 2)"
    using "1.prems" by (simp add: bit_length.simps [of n])
  show ?case
  proof (cases "n div 2 = 0")
    case True
    then have "n = 1" using "1.prems" by presburger
    then show ?thesis by (simp add: bit_length.simps)
  next
    case False
    then have p: "0 < n div 2" using "1.prems" by presburger
    from "1.IH" [OF _ p] "1.prems"
    have ih: "1 \<le> bit_length (n div 2)" "2 ^ nat (bit_length (n div 2) - 1) \<le> n div 2"
      "n div 2 < 2 ^ nat (bit_length (n div 2))" by auto
    define k where "k = nat (bit_length (n div 2) - 1)"
    have k: "bit_length (n div 2) = int k + 1" using ih(1) by (simp add: k_def)
    have l: "(2::int) ^ k \<le> n div 2" using ih(2) by (simp add: k_def)
    have u: "n div 2 < (2::int) ^ (Suc k)" using ih(3) by (simp add: k nat_add_distrib)
    have d: "2 * (n div 2) \<le> n" "n < 2 * (n div 2) + 2" by presburger+
    have "(2::int) ^ Suc k \<le> n" using l d by simp
    moreover have "n < (2::int) ^ Suc (Suc k)" using u d by simp
    ultimately show ?thesis
      by (simp add: b k nat_add_distrib)
  qed
qed

lemma ilog2_bounds:
  assumes "0 < q"
  shows "2 powi (ilog2 q) \<le> q \<and> q < 2 powi (ilog2 q + 1)"
proof (cases "1 \<le> q")
  case True
  define k where "k = \<lfloor>q\<rfloor>"
  have k1: "1 \<le> k" using True by (simp add: k_def le_floor_iff)
  from bit_length_bounds [of k] k1
  have b: "1 \<le> bit_length k" "2 ^ nat (bit_length k - 1) \<le> k" "k < 2 ^ nat (bit_length k)"
    by auto
  define j where "j = nat (bit_length k - 1)"
  have i: "ilog2 q = int j" using True b(1) by (simp add: ilog2_def k_def j_def)
  have bl: "nat (bit_length k) = Suc j" using b(1) by (simp add: j_def)
  have "(2::int) ^ j \<le> k" using b(2) by (simp add: j_def)
  then have "(of_int ((2::int) ^ j) :: rat) \<le> of_int k" by (simp only: of_int_le_iff)
  also have "\<dots> \<le> q" by (simp add: k_def)
  finally have l: "(2::rat) ^ j \<le> q" by simp
  have "k + 1 \<le> (2::int) ^ Suc j" using b(3) bl by simp
  then have "(of_int (k + 1) :: rat) \<le> of_int ((2::int) ^ Suc j)" by (simp only: of_int_le_iff)
  moreover have "q < of_int (k + 1)" using floor_correct [of q] by (simp add: k_def)
  ultimately have u: "q < (2::rat) ^ Suc j" by simp
  have "(2::rat) powi (int j + 1) = 2 ^ Suc j"
    by (metis of_nat_Suc power_int_of_nat add.commute)
  then show ?thesis using l u by (simp add: i)
next
  case False
  define t where "t = 1 / q"
  define c where "c = \<lceil>t\<rceil>"
  have t1: "1 < t" using False assms by (simp add: t_def)
  have c2: "2 \<le> c" using t1 ceiling_correct [of t] by (simp add: c_def)
  from bit_length_bounds [of "c - 1"] c2
  have b: "1 \<le> bit_length (c - 1)" "2 ^ nat (bit_length (c - 1) - 1) \<le> c - 1"
    "c - 1 < 2 ^ nat (bit_length (c - 1))" by auto
  define j where "j = nat (bit_length (c - 1) - 1)"
  have i: "ilog2 q = - (int j + 1)" using False b(1) by (simp add: ilog2_def c_def t_def j_def)
  have bl: "nat (bit_length (c - 1)) = Suc j" using b(1) by (simp add: j_def)
  have "c \<le> (2::int) ^ Suc j" using b(3) bl by simp
  then have "(of_int c :: rat) \<le> of_int ((2::int) ^ Suc j)" by (simp only: of_int_le_iff)
  moreover have "t \<le> of_int c" using ceiling_correct [of t] by (simp add: c_def)
  ultimately have tu: "t \<le> (2::rat) ^ Suc j" by simp
  have "(2::int) ^ j \<le> c - 1" using b(2) by (simp add: j_def)
  then have "(of_int ((2::int) ^ j) :: rat) \<le> of_int (c - 1)" by (simp only: of_int_le_iff)
  moreover have "of_int (c - 1) < t" using ceiling_correct [of t] by (simp add: c_def)
  ultimately have tl: "(2::rat) ^ j < t" by simp
  have q: "q = 1 / t" using assms by (simp add: t_def)
  have l: "1 / (2::rat) ^ Suc j \<le> q"
    using tu t1 unfolding q by (intro divide_left_mono) auto
  have u: "q < 1 / (2::rat) ^ j"
    using tl t1 unfolding q by (intro divide_strict_left_mono) (auto intro: mult_pos_pos)
  have p1: "(2::rat) powi (- (int j + 1)) = 1 / 2 ^ Suc j"
    by (metis of_nat_Suc power_int_of_nat add.commute power_int_minus inverse_eq_divide)
  have p2: "(2::rat) powi (- (int j + 1) + 1) = 1 / 2 ^ j"
    by (simp add: power_int_minus inverse_eq_divide)
  show ?thesis using l u by (simp only: i p1 p2)
qed

lemma ilog2_unique:
  assumes "0 < q" "2 powi e \<le> q" "q < 2 powi (e + 1)"
  shows "ilog2 q = e"
proof (rule ccontr)
  assume n: "ilog2 q \<noteq> e"
  from ilog2_bounds [OF assms(1)]
  have b: "2 powi (ilog2 q) \<le> q" "q < 2 powi (ilog2 q + 1)" by auto
  show False
  proof (cases "ilog2 q < e")
    case True
    then have "(2::rat) powi (ilog2 q + 1) \<le> 2 powi e"
      by (intro power_int_increasing) auto
    with b(2) assms(2) show False by simp
  next
    case False
    with n have "e + 1 \<le> ilog2 q" by simp
    then have "(2::rat) powi (e + 1) \<le> 2 powi (ilog2 q)"
      by (intro power_int_increasing) auto
    with b(1) assms(3) show False by simp
  qed
qed

lemma to_double_pos:
  assumes "0 < q" "pow2 e \<le> q" "q < pow2 (e + 1)"
    and "v = of_int (round_half_even (q / pow2 (max e (- 1022) - 52))) * pow2 (max e (- 1022) - 52)"
    and "v < pow2 1024"
  shows "to_double q = Fin v"
proof -
  have "ilog2 q = e" using assms(1-3) by (intro ilog2_unique) (simp_all add: pow2_powi)
  then show ?thesis using assms by (simp add: to_double_def Let_def)
qed

lemma round_half_even_cases:
  "round_half_even x = \<lfloor>x\<rfloor> \<and> x - of_int \<lfloor>x\<rfloor> \<le> 1 / 2
   \<or> round_half_even x = \<lfloor>x\<rfloor> + 1 \<and> 1 / 2 \<le> x - of_int \<lfloor>x\<rfloor>"
  by (auto simp add: round_half_even_def Let_def)

lemma round_half_even_bound: "\<bar>x - of_int (round_half_even x)\<bar> \<le> 1 / 2"
  using round_half_even_cases [of x] floor_correct [of x] by (auto simp add: abs_le_iff)

lemma round_half_even_nearest:
  "\<bar>x - of_int (round_half_even x)\<bar> \<le> \<bar>x - of_int k\<bar>"
proof (cases "k = round_half_even x")
  case True
  then show ?thesis by simp
next
  case False
  then have "1 \<le> \<bar>of_int (round_half_even x) - (of_int k :: rat)\<bar>"
    by (metis abs_ge_self diff_ge_0_iff_ge int_one_le_iff_zero_less linorder_not_le of_int_1_le_iff of_int_abs of_int_diff zero_less_abs_iff eq_iff_diff_eq_0)
  then show ?thesis using round_half_even_bound [of x] by linarith
qed

lemma round_half_even_ge: "of_int n \<le> x \<Longrightarrow> n \<le> round_half_even x"
proof -
  assume "of_int n \<le> x"
  then have "n \<le> \<lfloor>x\<rfloor>" by (simp add: le_floor_iff)
  then show ?thesis using round_half_even_cases [of x] by auto
qed

lemma round_half_even_le: "x \<le> of_int n \<Longrightarrow> round_half_even x \<le> n"
proof -
  assume a: "x \<le> of_int n"
  show ?thesis
  proof (cases "x = of_int n")
    case True
    then show ?thesis using round_half_even_cases [of x] by auto
  next
    case False
    with a have "x < of_int n" by simp
    then have "\<lfloor>x\<rfloor> < n" by (simp add: floor_less_iff)
    then show ?thesis using round_half_even_cases [of x] by auto
  qed
qed

lemma powi_53: "(2::rat) powi (e + 1) / 2 powi (e - 52) = 2 ^ 53"
proof -
  have "(2::rat) powi ((e + 1) - (e - 52)) = 2 powi (e + 1) / 2 powi (e - 52)"
    by (rule power_int_diff) simp
  moreover have "(e + 1) - (e - 52) = 53" by simp
  ultimately show ?thesis by simp
qed

lemma powi_52: "(2::rat) powi e / 2 powi (e - 52) = 2 ^ 52"
proof -
  have "(2::rat) powi (e - (e - 52)) = 2 powi e / 2 powi (e - 52)"
    by (rule power_int_diff) simp
  moreover have "e - (e - 52) = 52" by simp
  ultimately show ?thesis by simp
qed

lemma abs_grid: "0 < u \<Longrightarrow> \<bar>a - of_int k * u\<bar> = u * \<bar>a / u - of_int k\<bar>" for a u :: rat
proof -
  assume up: "0 < u"
  then have "a - of_int k * u = u * (a / u - of_int k)" by (simp add: field_simps)
  then show ?thesis using up by (simp add: abs_mult)
qed

lemma grid_facts:
  assumes "0 < a" and e: "e = max (ilog2 a) (- 1022)" and u: "u = 2 powi (e - 52)"
    and m: "m = round_half_even (a / u)"
  shows "0 < u" and "0 \<le> m" and "m \<le> 2 ^ 53"
    and "- 1022 < e \<Longrightarrow> 2 powi e \<le> a" and "- 1022 < e \<Longrightarrow> 2 ^ 52 \<le> m"
    and "\<bar>a - of_int m * u\<bar> \<le> \<bar>a - of_int K * u\<bar>"
    and "a < 2 powi (e + 1)"
proof -
  show up: "0 < u" by (simp add: u)
  from ilog2_bounds [OF assms(1)]
  have b: "2 powi (ilog2 a) \<le> a" "a < 2 powi (ilog2 a + 1)" by auto
  have "(2::rat) powi (ilog2 a + 1) \<le> 2 powi (e + 1)"
    by (intro power_int_increasing) (auto simp add: e)
  with b(2) show lt: "a < 2 powi (e + 1)" by simp
  then have "a / u < 2 powi (e + 1) / u" using up by (simp add: divide_strict_right_mono)
  then have "a / u \<le> of_int (2 ^ 53)" by (simp add: u powi_53)
  then show "m \<le> 2 ^ 53" unfolding m by (rule round_half_even_le)
  have "of_int 0 \<le> a / u" using assms(1) up by simp
  then show "0 \<le> m" unfolding m by (rule round_half_even_ge)
  {
    assume n: "- 1022 < e"
    then have ie: "ilog2 a = e" by (simp add: e max_def split: if_splits)
    with b(1) show l: "2 powi e \<le> a" by simp
    then have "2 powi e / u \<le> a / u" using up by (simp add: divide_right_mono)
    then have "of_int (2 ^ 52) \<le> a / u" by (simp add: u powi_52)
    then show "2 ^ 52 \<le> m" unfolding m by (rule round_half_even_ge)
  }
  have "\<bar>a - of_int m * u\<bar> = u * \<bar>a / u - of_int m\<bar>"
    using up by (rule abs_grid)
  also have "\<dots> \<le> u * \<bar>a / u - of_int K\<bar>"
    using up round_half_even_nearest [of "a / u" K] by (simp add: m)
  also have "\<dots> = \<bar>a - of_int K * u\<bar>"
    using up by (rule abs_grid [symmetric])
  finally show "\<bar>a - of_int m * u\<bar> \<le> \<bar>a - of_int K * u\<bar>" .
qed

lemma powi_split: "i \<le> j \<Longrightarrow> (2::rat) powi j = of_int (2 ^ nat (j - i)) * 2 powi i"
proof -
  assume "i \<le> j"
  then have "j = int (nat (j - i)) + i" by simp
  then have "(2::rat) powi j = 2 powi (int (nat (j - i)) + i)" by simp
  also have "\<dots> = 2 powi (int (nat (j - i))) * 2 powi i" by (rule power_int_add) simp
  also have "(2::rat) powi (int (nat (j - i))) = of_int (2 ^ nat (j - i))"
    unfolding power_int_of_nat by simp
  finally show ?thesis .
qed

lemma powi_less_cancel: "(2::rat) powi i < 2 powi j \<Longrightarrow> i < j"
proof (rule ccontr)
  assume a: "(2::rat) powi i < 2 powi j" and "\<not> i < j"
  then have "(2::rat) powi j \<le> 2 powi i" by (intro power_int_increasing) auto
  with a show False by simp
qed

lemma powi_up53: "(2::rat) powi (e + 1) = 2 ^ 53 * 2 powi (e - 52)"
proof -
  have ne: "(2::rat) powi (e - 52) \<noteq> 0" by simp
  show ?thesis by (rule nonzero_divide_eq_eq [THEN iffD1, OF ne powi_53])
qed

lemma powi_up52: "(2::rat) powi e = 2 ^ 52 * 2 powi (e - 52)"
proof -
  have ne: "(2::rat) powi (e - 52) \<noteq> 0" by simp
  show ?thesis by (rule nonzero_divide_eq_eq [THEN iffD1, OF ne powi_52])
qed

lemma powi_up52': "(2::rat) powi (e + 1) = 2 ^ 52 * 2 powi (e - 51)"
proof -
  have "e + 1 - 52 = e - 51" by simp
  then show ?thesis using powi_up52 [of "e + 1"] by (simp only:)
qed

lemma is_double_grid:
  assumes "0 \<le> m" "m \<le> 2 ^ 53" "- 1022 \<le> e" "of_int m * 2 powi (e - 52) < (2::rat) powi 1024"
    and "- 1022 < e \<Longrightarrow> 2 ^ 52 \<le> m"
  shows "is_double (of_int m * 2 powi (e - 52))"
proof -
  have e_hi: "e \<le> 1023"
  proof (rule ccontr)
    assume "\<not> e \<le> 1023"
    then have h: "1024 \<le> e" "- 1022 < e" by auto
    have "(2::rat) powi 1024 \<le> 2 powi e" using h(1) by (intro power_int_increasing) auto
    also have "\<dots> = of_int (2 ^ 52) * 2 powi (e - 52)"
      using powi_up52 [of e] by (simp only: of_int_power of_int_numeral)
    also have "\<dots> \<le> of_int m * 2 powi (e - 52)"
    proof (rule mult_right_mono)
      show "(of_int (2 ^ 52) :: rat) \<le> of_int m" using assms(5) [OF h(2)] by (simp only: of_int_le_iff)
      show "0 \<le> (2::rat) powi (e - 52)" by simp
    qed
    finally show False using assms(4) by (meson not_le)
  qed
  show ?thesis
  proof (cases "m < 2 ^ 53")
    case True
    show ?thesis unfolding is_double_def
    proof (intro exI conjI)
      show "of_int m * 2 powi (e - 52) = (of_int m :: rat) * 2 powi (e - 52)" ..
      show "\<bar>m\<bar> < 2 ^ 53" using True assms(1) by (simp only: abs_of_nonneg)
      show "- 1074 \<le> e - 52" using assms(3) by arith
      show "e - 52 \<le> 971" using e_hi by arith
    qed
  next
    case False
    with assms(2) have m53: "m = 2 ^ 53" by (simp only: not_less)
    have v: "(of_int m :: rat) * 2 powi (e - 52) = 2 powi (e + 1)"
      unfolding m53 powi_up53 [of e] by (simp only: of_int_power of_int_numeral)
    then have "(2::rat) powi (e + 1) < 2 powi 1024" using assms(4) by (simp only:)
    then have "e + 1 < 1024" by (rule powi_less_cancel)
    then have e2: "e \<le> 1022" by arith
    have w: "(of_int m :: rat) * 2 powi (e - 52) = of_int (2 ^ 52) * 2 powi (e - 51)"
      unfolding v powi_up52' [of e] by (simp only: of_int_power of_int_numeral)
    show ?thesis unfolding is_double_def
    proof (intro exI conjI)
      show "(of_int m :: rat) * 2 powi (e - 52) = of_int (2 ^ 52) * 2 powi (e - 51)" by (rule w)
      show "\<bar>2 ^ 52 :: int\<bar> < 2 ^ 53" by simp
      show "- 1074 \<le> e - 51" using assms(3) by arith
      show "e - 51 \<le> 971" using e2 by arith
    qed
  qed
qed
lemma to_double_pos_unfold:
  "0 < a \<Longrightarrow> to_double a =
     (if (2::rat) powi 1024 \<le> of_int (round_half_even (a / 2 powi (max (ilog2 a) (- 1022) - 52)))
                         * 2 powi (max (ilog2 a) (- 1022) - 52)
      then PosInf
      else Fin (of_int (round_half_even (a / 2 powi (max (ilog2 a) (- 1022) - 52)))
                * 2 powi (max (ilog2 a) (- 1022) - 52)))"
  by (simp add: to_double_def Let_def pow2_powi)

lemma to_double_pos_nearest:
  assumes "0 < a" "to_double a = Fin v"
  shows "nearest_double a v"
proof -
  define e where "e = max (ilog2 a) (- 1022)"
  define u where "u = (2::rat) powi (e - 52)"
  define m where "m = round_half_even (a / u)"
  note g = grid_facts [OF assms(1) e_def u_def m_def]
  have "to_double a = (if (2::rat) powi 1024 \<le> of_int m * u then PosInf else Fin (of_int m * u))"
    unfolding m_def u_def e_def by (rule to_double_pos_unfold [OF assms(1)])
  with assms(2) have v: "v = of_int m * u" and fin: "of_int m * u < 2 powi 1024"
    by (auto simp only: not_le [symmetric] jsnum.simps split: if_splits)
  have e_lo: "- 1022 \<le> e" by (simp add: e_def)
  have d: "is_double v"
    unfolding v u_def
    by (rule is_double_grid [OF g(2) g(3) e_lo fin [unfolded u_def] g(5)])
  have n: "\<bar>a - v\<bar> \<le> \<bar>a - d\<bar>" if "is_double d" for d
  proof -
    from that obtain k j where kj: "d = of_int k * 2 powi j" "\<bar>k\<bar> < 2 ^ 53" "- 1074 \<le> j"
      unfolding is_double_def by blast
    have z: "\<bar>a - v\<bar> \<le> a" using g(6) [of 0] assms(1) by (simp add: v)
    show ?thesis
    proof (cases "k < 0")
      case True
      then have "d < 0" unfolding kj(1) by (intro mult_neg_pos) simp_all
      then show ?thesis using z assms(1) by linarith
    next
      case False
      then have k0: "0 \<le> k" by simp
      show ?thesis
      proof (cases "e - 52 \<le> j")
        case True
        have "d = of_int k * (of_int (2 ^ nat (j - (e - 52))) * u)"
          unfolding kj(1) u_def by (simp only: powi_split [OF True])
        then have "d = of_int (k * 2 ^ nat (j - (e - 52))) * u"
          by (simp only: of_int_mult mult.assoc)
        then show ?thesis using g(6) [of "k * 2 ^ nat (j - (e - 52))"] by (simp only: v)
      next
        case False
        then have lo: "- 1022 < e" using kj(3) by arith
        have "k < 2 ^ 53" using kj(2) by arith
        then have "(of_int k :: rat) < of_int (2 ^ 53)" by (simp only: of_int_less_iff)
        then have "d < of_int (2 ^ 53) * 2 powi j"
          unfolding kj(1) by (intro mult_strict_right_mono) simp_all
        also have "\<dots> = 2 powi (j + 53)"
          using powi_up53 [of "j + 52"] by (simp add: add.commute)
        also have "\<dots> \<le> 2 powi e" using False by (intro power_int_increasing) auto
        finally have dl: "d < 2 powi e" .
        have "\<bar>a - v\<bar> \<le> \<bar>a - of_int (2 ^ 52) * u\<bar>" using g(6) [of "2 ^ 52"] by (simp only: v)
        also have "of_int (2 ^ 52) * u = 2 powi e"
          unfolding u_def powi_up52 [of e] by (simp only: of_int_power of_int_numeral)
        finally show ?thesis using dl g(4) [OF lo] by linarith
      qed
    qed
  qed
  show ?thesis unfolding nearest_double_def using d n by blast
qed

lemma round_half_even_half:
  assumes "of_int n - 1 / 2 \<le> x" "even n"
  shows "n \<le> round_half_even x"
proof (cases "of_int n \<le> x")
  case True
  then show ?thesis by (rule round_half_even_ge)
next
  case False
  then have lt: "x < of_int n" by simp
  have "of_int (n - 1) \<le> x" using assms(1) by simp
  then have "n - 1 \<le> \<lfloor>x\<rfloor>" by (simp only: le_floor_iff)
  moreover have "\<lfloor>x\<rfloor> < n" using lt by (simp only: floor_less_iff)
  ultimately have f: "\<lfloor>x\<rfloor> = n - 1" by arith
  then have "odd \<lfloor>x\<rfloor>" using assms(2) by simp
  moreover have "\<not> x - of_int \<lfloor>x\<rfloor> < 1 / 2" using assms(1) by (simp add: f)
  ultimately have "round_half_even x = \<lfloor>x\<rfloor> + 1"
    by (auto simp add: round_half_even_def Let_def)
  then show ?thesis by (simp add: f)
qed

lemma powi_le_cancel: "(2::rat) powi i \<le> 2 powi j \<Longrightarrow> i \<le> j"
proof (rule ccontr)
  assume a: "(2::rat) powi i \<le> 2 powi j" and "\<not> i \<le> j"
  then have "(2::rat) powi j < 2 powi i" by (intro power_int_strict_increasing) auto
  with a show False by simp
qed

lemma threshold: "(2::rat) powi 1024 - 2 powi 970 = (2 ^ 53 - 1 / 2) * 2 powi 971"
  by simp

lemma to_double_pos_overflow:
  assumes "0 < a"
  shows "to_double a = PosInf \<longleftrightarrow> 2 powi 1024 - 2 powi 970 \<le> a"
proof -
  define e where "e = max (ilog2 a) (- 1022)"
  define u where "u = (2::rat) powi (e - 52)"
  define m where "m = round_half_even (a / u)"
  note g = grid_facts [OF assms(1) e_def u_def m_def]
  have "to_double a = (if (2::rat) powi 1024 \<le> of_int m * u then PosInf else Fin (of_int m * u))"
    unfolding m_def u_def e_def by (rule to_double_pos_unfold [OF assms(1)])
  then have ov: "to_double a = PosInf \<longleftrightarrow> (2::rat) powi 1024 \<le> of_int m * u"
    by (simp only: split: if_splits) auto
  have mu: "of_int (2 ^ 53) * u = 2 powi (e + 1)" "of_int (2 ^ 52) * u = 2 powi e"
    unfolding u_def powi_up53 [of e] powi_up52 [of e] by (simp_all only: of_int_power of_int_numeral)
  show ?thesis
  proof
    assume "to_double a = PosInf"
    then have h: "(2::rat) powi 1024 \<le> of_int m * u" by (simp only: ov)
    also have "\<dots> \<le> of_int (2 ^ 53) * u"
    proof (rule mult_right_mono)
      show "(of_int m :: rat) \<le> of_int (2 ^ 53)" using g(3) by (simp only: of_int_le_iff)
      show "0 \<le> u" using g(1) by simp
    qed
    finally have "(2::rat) powi 1024 \<le> 2 powi (e + 1)" by (simp only: mu)
    then have e1: "1023 \<le> e" using powi_le_cancel [of 1024 "e + 1"] by arith
    then have lo: "- 1022 < e" by arith
    show "2 powi 1024 - 2 powi 970 \<le> a"
    proof (cases "e = 1023")
      case True
      have u971: "u = 2 powi 971" by (simp add: u_def True)
      have "(2::rat) powi 1024 = of_int (2 ^ 53) * u" by (simp add: u971)
      with h have "of_int (2 ^ 53) * u \<le> of_int m * u" by (simp only:)
      then have "(of_int (2 ^ 53) :: rat) \<le> of_int m" using g(1) by (simp only: mult_le_cancel_right_pos)
      then have "(2 ^ 53 :: rat) - 1 / 2 \<le> of_int m - 1 / 2" by simp
      also have "\<dots> \<le> a / u" using round_half_even_bound [of "a / u"] unfolding m_def [symmetric] by linarith
      finally have "(2 ^ 53 - 1 / 2) * u \<le> a" using g(1) by (simp only: pos_le_divide_eq)
      then show ?thesis unfolding threshold u971 .
    next
      case False
      with e1 have "1024 \<le> e" by arith
      then have "(2::rat) powi 1024 \<le> 2 powi e" by (intro power_int_increasing) auto
      also have "\<dots> \<le> a" by (rule g(4) [OF lo])
      finally show ?thesis by simp
    qed
  next
    assume t: "2 powi 1024 - 2 powi 970 \<le> a"
    have "(2::rat) powi 1023 \<le> 2 powi 1024 - 2 powi 970" by simp
    also note t
    also have "a < 2 powi (e + 1)" by (rule g(7))
    finally have "1023 < e + 1" by (rule powi_less_cancel)
    then have e1: "1023 \<le> e" by arith
    then have lo: "- 1022 < e" by arith
    have "(2::rat) powi 1024 \<le> of_int m * u"
    proof (cases "e = 1023")
      case True
      have u971: "u = 2 powi 971" by (simp add: u_def True)
      have "(2 ^ 53 - 1 / 2) * u \<le> a" using t unfolding threshold u971 .
      then have "of_int (2 ^ 53) - 1 / 2 \<le> a / u" using g(1) by (simp only: pos_le_divide_eq of_int_power of_int_numeral)
      then have "2 ^ 53 \<le> m" unfolding m_def by (rule round_half_even_half) simp
      then have "(of_int (2 ^ 53) :: rat) \<le> of_int m" by (simp only: of_int_le_iff)
      then have "of_int (2 ^ 53) * u \<le> of_int m * u" using g(1) by (simp only: mult_le_cancel_right_pos)
      then show ?thesis by (simp add: u971)
    next
      case False
      with e1 have "1024 \<le> e" by arith
      then have "(2::rat) powi 1024 \<le> 2 powi e" by (intro power_int_increasing) auto
      also have "\<dots> = of_int (2 ^ 52) * u" by (simp only: mu)
      also have "\<dots> \<le> of_int m * u"
      proof (rule mult_right_mono)
        show "(of_int (2 ^ 52) :: rat) \<le> of_int m" using g(5) [OF lo] by (simp only: of_int_le_iff)
        show "0 \<le> u" using g(1) by simp
      qed
      finally show ?thesis .
    qed
    then show "to_double a = PosInf" by (simp only: ov)
  qed
qed

lemma to_double_neg:
  "0 < q \<Longrightarrow> to_double (- q) =
     (case to_double q of PosInf \<Rightarrow> NegInf | Fin v \<Rightarrow> Fin (- v) | r \<Rightarrow> r)"
  by (simp add: to_double_def Let_def)

lemma to_double_5: "to_double 5 = Fin 5"
  by (rule to_double_pos [where e = 2])
    (simp_all add: pow2_def round_half_even_def floor_rat_numeral Let_def)

lemma parseFloat_nbsp_minus_5:
  "parseFloat_str (CHR 0xC2 # CHR 0xA0 # ''-5'') = Fin (- 5)"
  by (simp add: parseFloat_str_def is_ws_def white_space_def tail_len_def is_cont_def
      is_digit_def digits_val_def digit_val_def exponent_part_def pow10_def Let_def
      to_double_neg to_double_5)

lemma to_double_pos_cases:
  assumes "0 < a"
  shows "to_double a = PosInf \<or> (\<exists>v. to_double a = Fin v)"
  by (simp add: to_double_pos_unfold [OF assms])

lemma unit_amount_semantics:
  assumes "0 < x"
  shows "if 2 powi 1024 - 2 powi 970 \<le> x * 100
         then Math_round (js_mul (Fin x) (Fin 100)) = PosInf
         else \<exists>y. nearest_double (x * 100) y
                \<and> Math_round (js_mul (Fin x) (Fin 100)) = Fin (of_int \<lfloor>y + 1 / 2\<rfloor>)"
proof -
  have p: "0 < x * 100" using assms by simp
  show ?thesis
  proof (cases "2 powi 1024 - 2 powi 970 \<le> x * 100")
    case True
    then have "to_double (x * 100) = PosInf"
      using to_double_pos_overflow [OF p] by blast
    then show ?thesis using True by simp
  next
    case False
    then have "to_double (x * 100) \<noteq> PosInf"
      using to_double_pos_overflow [OF p] by blast
    with to_double_pos_cases [OF p] obtain y where y: "to_double (x * 100) = Fin y" by blast
    have "nearest_double (x * 100) y" by (rule to_double_pos_nearest [OF p y])
    then show ?thesis using False y by auto
  qed
qed

subsection \<open>Amounts: the number read and the unit amount\<close>

text \<open>
  For each amount: the double that \<^verbatim>\<open>parseFloat\<close> reads, its product with 100, and the
  rounded unit amount.
\<close>

lemma parseFloat_19_999: "parseFloat_str ''19.999'' = Fin (5629218059236409 / 281474976710656)"
  by (simp add: parseFloat_str_def is_ws_def white_space_def tail_len_def is_cont_def is_digit_def
      digits_val_def digit_val_def exponent_part_def pow10_def Let_def,
      rule to_double_pos [where e = "4"])
    (simp_all add: pow2_def round_half_even_def floor_rat_numeral Let_def)

lemma cents_19_999: "js_mul (Fin (5629218059236409 / 281474976710656)) (Fin 100) = Fin (8795653217556889 / 4398046511104)"
  by (simp, rule to_double_pos [where e = "10"])
    (simp_all add: pow2_def round_half_even_def floor_rat_numeral Let_def)

lemma unit_19_999: "Math_round (js_mul (parseFloat_str ''19.999'') (Fin 100)) = Fin 2000"
  by (simp only: parseFloat_19_999 cents_19_999) (simp add: floor_rat_numeral)

lemma parse_8_345: "parseFloat_str ''8.345'' = Fin (4697817361300849 / 562949953421312)"
  by (simp add: parseFloat_str_def is_ws_def white_space_def tail_len_def is_cont_def is_digit_def
      digits_val_def digit_val_def exponent_part_def pow10_def Let_def,
      rule to_double_pos [where e = "3"])
    (simp_all add: pow2_def round_half_even_def floor_rat_numeral Let_def)

lemma cents_8_345: "js_mul (Fin (4697817361300849 / 562949953421312)) (Fin 100) = Fin (7340339627032577 / 8796093022208)"
  by (simp, rule to_double_pos [where e = "9"])
    (simp_all add: pow2_def round_half_even_def floor_rat_numeral Let_def)

lemma unit_8_345: "Math_round (js_mul (parseFloat_str ''8.345'') (Fin 100)) = Fin 835"
  by (simp only: parse_8_345 cents_8_345) (simp add: floor_rat_numeral)

lemma parse_1_005: "parseFloat_str ''1.005'' = Fin (1131529406376837 / 1125899906842624)"
  by (simp add: parseFloat_str_def is_ws_def white_space_def tail_len_def is_cont_def is_digit_def
      digits_val_def digit_val_def exponent_part_def pow10_def Let_def,
      rule to_double_pos [where e = "0"])
    (simp_all add: pow2_def round_half_even_def floor_rat_numeral Let_def)

lemma cents_1_005: "js_mul (Fin (1131529406376837 / 1125899906842624)) (Fin 100) = Fin (7072058789855231 / 70368744177664)"
  by (simp, rule to_double_pos [where e = "6"])
    (simp_all add: pow2_def round_half_even_def floor_rat_numeral Let_def)

lemma unit_1_005: "Math_round (js_mul (parseFloat_str ''1.005'') (Fin 100)) = Fin 100"
  by (simp only: parse_1_005 cents_1_005) (simp add: floor_rat_numeral)

lemma parse_0_125: "parseFloat_str ''0.125'' = Fin (1 / 8)"
  by (simp add: parseFloat_str_def is_ws_def white_space_def tail_len_def is_cont_def is_digit_def
      digits_val_def digit_val_def exponent_part_def pow10_def Let_def,
      rule to_double_pos [where e = "-3"])
    (simp_all add: pow2_def round_half_even_def floor_rat_numeral Let_def)

lemma cents_0_125: "js_mul (Fin (1 / 8)) (Fin 100) = Fin (25 / 2)"
  by (simp, rule to_double_pos [where e = "3"])
    (simp_all add: pow2_def round_half_even_def floor_rat_numeral Let_def)

lemma unit_0_125: "Math_round (js_mul (parseFloat_str ''0.125'') (Fin 100)) = Fin 13"
  by (simp only: parse_0_125 cents_0_125) (simp add: floor_rat_numeral)

lemma parse_0_625: "parseFloat_str ''0.625'' = Fin (5 / 8)"
  by (simp add: parseFloat_str_def is_ws_def white_space_def tail_len_def is_cont_def is_digit_def
      digits_val_def digit_val_def exponent_part_def pow10_def Let_def,
      rule to_double_pos [where e = "-1"])
    (simp_all add: pow2_def round_half_even_def floor_rat_numeral Let_def)

lemma cents_0_625: "js_mul (Fin (5 / 8)) (Fin 100) = Fin (125 / 2)"
  by (simp, rule to_double_pos [where e = "5"])
    (simp_all add: pow2_def round_half_even_def floor_rat_numeral Let_def)

lemma unit_0_625: "Math_round (js_mul (parseFloat_str ''0.625'') (Fin 100)) = Fin 63"
  by (simp only: parse_0_625 cents_0_625) (simp add: floor_rat_numeral)

lemma parse_33_335: "parseFloat_str ''33.335'' = Fin (4691484174324859 / 140737488355328)"
  by (simp add: parseFloat_str_def is_ws_def white_space_def tail_len_def is_cont_def is_digit_def
      digits_val_def digit_val_def exponent_part_def pow10_def Let_def,
      rule to_double_pos [where e = "5"])
    (simp_all add: pow2_def round_half_even_def floor_rat_numeral Let_def)

lemma cents_33_335: "js_mul (Fin (4691484174324859 / 140737488355328)) (Fin 100) = Fin (6667 / 2)"
  by (simp, rule to_double_pos [where e = "11"])
    (simp_all add: pow2_def round_half_even_def floor_rat_numeral Let_def)

lemma unit_33_335: "Math_round (js_mul (parseFloat_str ''33.335'') (Fin 100)) = Fin 3334"
  by (simp only: parse_33_335 cents_33_335) (simp add: floor_rat_numeral)

lemma parse_4_35: "parseFloat_str ''4.35'' = Fin (2448832297382707 / 562949953421312)"
  by (simp add: parseFloat_str_def is_ws_def white_space_def tail_len_def is_cont_def is_digit_def
      digits_val_def digit_val_def exponent_part_def pow10_def Let_def,
      rule to_double_pos [where e = "2"])
    (simp_all add: pow2_def round_half_even_def floor_rat_numeral Let_def)

lemma cents_4_35: "js_mul (Fin (2448832297382707 / 562949953421312)) (Fin 100) = Fin (7652600929320959 / 17592186044416)"
  by (simp, rule to_double_pos [where e = "8"])
    (simp_all add: pow2_def round_half_even_def floor_rat_numeral Let_def)

lemma unit_4_35: "Math_round (js_mul (parseFloat_str ''4.35'') (Fin 100)) = Fin 435"
  by (simp only: parse_4_35 cents_4_35) (simp add: floor_rat_numeral)

lemma parse_0_07: "parseFloat_str ''0.07'' = Fin (1261007895663739 / 18014398509481984)"
  by (simp add: parseFloat_str_def is_ws_def white_space_def tail_len_def is_cont_def is_digit_def
      digits_val_def digit_val_def exponent_part_def pow10_def Let_def,
      rule to_double_pos [where e = "-4"])
    (simp_all add: pow2_def round_half_even_def floor_rat_numeral Let_def)

lemma cents_0_07: "js_mul (Fin (1261007895663739 / 18014398509481984)) (Fin 100) = Fin (7881299347898369 / 1125899906842624)"
  by (simp, rule to_double_pos [where e = "2"])
    (simp_all add: pow2_def round_half_even_def floor_rat_numeral Let_def)

lemma unit_0_07: "Math_round (js_mul (parseFloat_str ''0.07'') (Fin 100)) = Fin 7"
  by (simp only: parse_0_07 cents_0_07) (simp add: floor_rat_numeral)

lemma parse_100: "parseFloat_str ''100'' = Fin 100"
  by (simp add: parseFloat_str_def is_ws_def white_space_def tail_len_def is_cont_def is_digit_def
      digits_val_def digit_val_def exponent_part_def pow10_def Let_def,
      rule to_double_pos [where e = "6"])
    (simp_all add: pow2_def round_half_even_def floor_rat_numeral Let_def)

lemma cents_100: "js_mul (Fin 100) (Fin 100) = Fin 10000"
  by (simp, rule to_double_pos [where e = "13"])
    (simp_all add: pow2_def round_half_even_def floor_rat_numeral Let_def)

lemma unit_100: "Math_round (js_mul (parseFloat_str ''100'') (Fin 100)) = Fin 10000"
  by (simp only: parse_100 cents_100) (simp add: floor_rat_numeral)

lemma parse_1e3: "parseFloat_str ''1e3'' = Fin 1000"
  by (simp add: parseFloat_str_def is_ws_def white_space_def tail_len_def is_cont_def is_digit_def
      digits_val_def digit_val_def exponent_part_def pow10_def Let_def,
      rule to_double_pos [where e = "9"])
    (simp_all add: pow2_def round_half_even_def floor_rat_numeral Let_def)

lemma cents_1e3: "js_mul (Fin 1000) (Fin 100) = Fin 100000"
  by (simp, rule to_double_pos [where e = "16"])
    (simp_all add: pow2_def round_half_even_def floor_rat_numeral Let_def)

lemma unit_1e3: "Math_round (js_mul (parseFloat_str ''1e3'') (Fin 100)) = Fin 100000"
  by (simp only: parse_1e3 cents_1e3) (simp add: floor_rat_numeral)

lemma parse_1_5E2: "parseFloat_str ''1.5E+2'' = Fin 150"
  by (simp add: parseFloat_str_def is_ws_def white_space_def tail_len_def is_cont_def is_digit_def
      digits_val_def digit_val_def exponent_part_def pow10_def Let_def,
      rule to_double_pos [where e = "7"])
    (simp_all add: pow2_def round_half_even_def floor_rat_numeral Let_def)

lemma cents_1_5E2: "js_mul (Fin 150) (Fin 100) = Fin 15000"
  by (simp, rule to_double_pos [where e = "13"])
    (simp_all add: pow2_def round_half_even_def floor_rat_numeral Let_def)

lemma unit_1_5E2: "Math_round (js_mul (parseFloat_str ''1.5E+2'') (Fin 100)) = Fin 15000"
  by (simp only: parse_1_5E2 cents_1_5E2) (simp add: floor_rat_numeral)

lemma parse_25em1: "parseFloat_str ''25e-1'' = Fin (5 / 2)"
  by (simp add: parseFloat_str_def is_ws_def white_space_def tail_len_def is_cont_def is_digit_def
      digits_val_def digit_val_def exponent_part_def pow10_def Let_def,
      rule to_double_pos [where e = "1"])
    (simp_all add: pow2_def round_half_even_def floor_rat_numeral Let_def)

lemma cents_25em1: "js_mul (Fin (5 / 2)) (Fin 100) = Fin 250"
  by (simp, rule to_double_pos [where e = "7"])
    (simp_all add: pow2_def round_half_even_def floor_rat_numeral Let_def)

lemma unit_25em1: "Math_round (js_mul (parseFloat_str ''25e-1'') (Fin 100)) = Fin 250"
  by (simp only: parse_25em1 cents_25em1) (simp add: floor_rat_numeral)

lemma parse_plus5: "parseFloat_str ''+5'' = Fin 5"
  by (simp add: parseFloat_str_def is_ws_def white_space_def tail_len_def is_cont_def is_digit_def
      digits_val_def digit_val_def exponent_part_def pow10_def Let_def,
      rule to_double_pos [where e = "2"])
    (simp_all add: pow2_def round_half_even_def floor_rat_numeral Let_def)

lemma cents_plus5: "js_mul (Fin 5) (Fin 100) = Fin 500"
  by (simp, rule to_double_pos [where e = "8"])
    (simp_all add: pow2_def round_half_even_def floor_rat_numeral Let_def)

lemma unit_plus5: "Math_round (js_mul (parseFloat_str ''+5'') (Fin 100)) = Fin 500"
  by (simp only: parse_plus5 cents_plus5) (simp add: floor_rat_numeral)

lemma parse_dot5: "parseFloat_str ''.5'' = Fin (1 / 2)"
  by (simp add: parseFloat_str_def is_ws_def white_space_def tail_len_def is_cont_def is_digit_def
      digits_val_def digit_val_def exponent_part_def pow10_def Let_def,
      rule to_double_pos [where e = "-1"])
    (simp_all add: pow2_def round_half_even_def floor_rat_numeral Let_def)

lemma cents_dot5: "js_mul (Fin (1 / 2)) (Fin 100) = Fin 50"
  by (simp, rule to_double_pos [where e = "5"])
    (simp_all add: pow2_def round_half_even_def floor_rat_numeral Let_def)

lemma unit_dot5: "Math_round (js_mul (parseFloat_str ''.5'') (Fin 100)) = Fin 50"
  by (simp only: parse_dot5 cents_dot5) (simp add: floor_rat_numeral)

lemma parse_5dot: "parseFloat_str ''5.'' = Fin 5"
  by (simp add: parseFloat_str_def is_ws_def white_space_def tail_len_def is_cont_def is_digit_def
      digits_val_def digit_val_def exponent_part_def pow10_def Let_def,
      rule to_double_pos [where e = "2"])
    (simp_all add: pow2_def round_half_even_def floor_rat_numeral Let_def)

lemma cents_5dot: "js_mul (Fin 5) (Fin 100) = Fin 500"
  by (simp, rule to_double_pos [where e = "8"])
    (simp_all add: pow2_def round_half_even_def floor_rat_numeral Let_def)

lemma unit_5dot: "Math_round (js_mul (parseFloat_str ''5.'') (Fin 100)) = Fin 500"
  by (simp only: parse_5dot cents_5dot) (simp add: floor_rat_numeral)

lemma parse_5e: "parseFloat_str ''5e'' = Fin 5"
  by (simp add: parseFloat_str_def is_ws_def white_space_def tail_len_def is_cont_def is_digit_def
      digits_val_def digit_val_def exponent_part_def pow10_def Let_def,
      rule to_double_pos [where e = "2"])
    (simp_all add: pow2_def round_half_even_def floor_rat_numeral Let_def)

lemma cents_5e: "js_mul (Fin 5) (Fin 100) = Fin 500"
  by (simp, rule to_double_pos [where e = "8"])
    (simp_all add: pow2_def round_half_even_def floor_rat_numeral Let_def)

lemma unit_5e: "Math_round (js_mul (parseFloat_str ''5e'') (Fin 100)) = Fin 500"
  by (simp only: parse_5e cents_5e) (simp add: floor_rat_numeral)

lemma parse_12_5abc: "parseFloat_str ''12.5abc'' = Fin (25 / 2)"
  by (simp add: parseFloat_str_def is_ws_def white_space_def tail_len_def is_cont_def is_digit_def
      digits_val_def digit_val_def exponent_part_def pow10_def Let_def,
      rule to_double_pos [where e = "3"])
    (simp_all add: pow2_def round_half_even_def floor_rat_numeral Let_def)

lemma cents_12_5abc: "js_mul (Fin (25 / 2)) (Fin 100) = Fin 1250"
  by (simp, rule to_double_pos [where e = "10"])
    (simp_all add: pow2_def round_half_even_def floor_rat_numeral Let_def)

lemma unit_12_5abc: "Math_round (js_mul (parseFloat_str ''12.5abc'') (Fin 100)) = Fin 1250"
  by (simp only: parse_12_5abc cents_12_5abc) (simp add: floor_rat_numeral)

lemma parse_1_2_3: "parseFloat_str ''1.2.3'' = Fin (5404319552844595 / 4503599627370496)"
  by (simp add: parseFloat_str_def is_ws_def white_space_def tail_len_def is_cont_def is_digit_def
      digits_val_def digit_val_def exponent_part_def pow10_def Let_def,
      rule to_double_pos [where e = "0"])
    (simp_all add: pow2_def round_half_even_def floor_rat_numeral Let_def)

lemma cents_1_2_3: "js_mul (Fin (5404319552844595 / 4503599627370496)) (Fin 100) = Fin 120"
  by (simp, rule to_double_pos [where e = "6"])
    (simp_all add: pow2_def round_half_even_def floor_rat_numeral Let_def)

lemma unit_1_2_3: "Math_round (js_mul (parseFloat_str ''1.2.3'') (Fin 100)) = Fin 120"
  by (simp only: parse_1_2_3 cents_1_2_3) (simp add: floor_rat_numeral)

lemma parse_sp_49_99: "parseFloat_str (CHR 0x20 # CHR 0x09 # ''49.99'') = Fin (7035467042882847 / 140737488355328)"
  by (simp add: parseFloat_str_def is_ws_def white_space_def tail_len_def is_cont_def is_digit_def
      digits_val_def digit_val_def exponent_part_def pow10_def Let_def,
      rule to_double_pos [where e = "5"])
    (simp_all add: pow2_def round_half_even_def floor_rat_numeral Let_def)

lemma cents_sp_49_99: "js_mul (Fin (7035467042882847 / 140737488355328)) (Fin 100) = Fin 4999"
  by (simp, rule to_double_pos [where e = "12"])
    (simp_all add: pow2_def round_half_even_def floor_rat_numeral Let_def)

lemma unit_sp_49_99: "Math_round (js_mul (parseFloat_str (CHR 0x20 # CHR 0x09 # ''49.99'')) (Fin 100)) = Fin 4999"
  by (simp only: parse_sp_49_99 cents_sp_49_99) (simp add: floor_rat_numeral)

lemma parse_nbsp_19_999: "parseFloat_str (CHR 0xC2 # CHR 0xA0 # ''19.999'') = Fin (5629218059236409 / 281474976710656)"
  by (simp add: parseFloat_str_def is_ws_def white_space_def tail_len_def is_cont_def is_digit_def
      digits_val_def digit_val_def exponent_part_def pow10_def Let_def,
      rule to_double_pos [where e = "4"])
    (simp_all add: pow2_def round_half_even_def floor_rat_numeral Let_def)

lemma cents_nbsp_19_999: "js_mul (Fin (5629218059236409 / 281474976710656)) (Fin 100) = Fin (8795653217556889 / 4398046511104)"
  by (simp, rule to_double_pos [where e = "10"])
    (simp_all add: pow2_def round_half_even_def floor_rat_numeral Let_def)

lemma unit_nbsp_19_999: "Math_round (js_mul (parseFloat_str (CHR 0xC2 # CHR 0xA0 # ''19.999'')) (Fin 100)) = Fin 2000"
  by (simp only: parse_nbsp_19_999 cents_nbsp_19_999) (simp add: floor_rat_numeral)

lemma parse_all_ws: "parseFloat_str (CHR 0x09 # CHR 0x0A # CHR 0x0B # CHR 0x0C # CHR 0x0D # CHR 0x20 # CHR 0xC2 # CHR 0xA0 # CHR 0xE1 # CHR 0x9A # CHR 0x80 # CHR 0xE2 # CHR 0x80 # CHR 0x80 # CHR 0xE2 # CHR 0x80 # CHR 0x81 # CHR 0xE2 # CHR 0x80 # CHR 0x82 # CHR 0xE2 # CHR 0x80 # CHR 0x83 # CHR 0xE2 # CHR 0x80 # CHR 0x84 # CHR 0xE2 # CHR 0x80 # CHR 0x85 # CHR 0xE2 # CHR 0x80 # CHR 0x86 # CHR 0xE2 # CHR 0x80 # CHR 0x87 # CHR 0xE2 # CHR 0x80 # CHR 0x88 # CHR 0xE2 # CHR 0x80 # CHR 0x89 # CHR 0xE2 # CHR 0x80 # CHR 0x8A # CHR 0xE2 # CHR 0x80 # CHR 0xA8 # CHR 0xE2 # CHR 0x80 # CHR 0xA9 # CHR 0xE2 # CHR 0x80 # CHR 0xAF # CHR 0xE2 # CHR 0x81 # CHR 0x9F # CHR 0xE3 # CHR 0x80 # CHR 0x80 # CHR 0xEF # CHR 0xBB # CHR 0xBF # ''7'') = Fin 7"
  by (simp add: parseFloat_str_def is_ws_def white_space_def tail_len_def is_cont_def is_digit_def
      digits_val_def digit_val_def exponent_part_def pow10_def Let_def,
      rule to_double_pos [where e = "2"])
    (simp_all add: pow2_def round_half_even_def floor_rat_numeral Let_def)

lemma cents_all_ws: "js_mul (Fin 7) (Fin 100) = Fin 700"
  by (simp, rule to_double_pos [where e = "9"])
    (simp_all add: pow2_def round_half_even_def floor_rat_numeral Let_def)

lemma unit_all_ws: "Math_round (js_mul (parseFloat_str (CHR 0x09 # CHR 0x0A # CHR 0x0B # CHR 0x0C # CHR 0x0D # CHR 0x20 # CHR 0xC2 # CHR 0xA0 # CHR 0xE1 # CHR 0x9A # CHR 0x80 # CHR 0xE2 # CHR 0x80 # CHR 0x80 # CHR 0xE2 # CHR 0x80 # CHR 0x81 # CHR 0xE2 # CHR 0x80 # CHR 0x82 # CHR 0xE2 # CHR 0x80 # CHR 0x83 # CHR 0xE2 # CHR 0x80 # CHR 0x84 # CHR 0xE2 # CHR 0x80 # CHR 0x85 # CHR 0xE2 # CHR 0x80 # CHR 0x86 # CHR 0xE2 # CHR 0x80 # CHR 0x87 # CHR 0xE2 # CHR 0x80 # CHR 0x88 # CHR 0xE2 # CHR 0x80 # CHR 0x89 # CHR 0xE2 # CHR 0x80 # CHR 0x8A # CHR 0xE2 # CHR 0x80 # CHR 0xA8 # CHR 0xE2 # CHR 0x80 # CHR 0xA9 # CHR 0xE2 # CHR 0x80 # CHR 0xAF # CHR 0xE2 # CHR 0x81 # CHR 0x9F # CHR 0xE3 # CHR 0x80 # CHR 0x80 # CHR 0xEF # CHR 0xBB # CHR 0xBF # ''7'')) (Fin 100)) = Fin 700"
  by (simp only: parse_all_ws cents_all_ws) (simp add: floor_rat_numeral)

lemma parse_zwsp: "parseFloat_str (CHR 0xE2 # CHR 0x80 # CHR 0x8B # ''7'') = NaN"
  by (simp add: parseFloat_str_def is_ws_def white_space_def tail_len_def is_cont_def is_digit_def
      digits_val_def digit_val_def exponent_part_def pow10_def Let_def)

lemma unit_zwsp: "Math_round (js_mul (parseFloat_str (CHR 0xE2 # CHR 0x80 # CHR 0x8B # ''7'')) (Fin 100)) = NaN"
  by (simp add: parse_zwsp)

lemma parse_nel: "parseFloat_str (CHR 0xC2 # CHR 0x85 # ''7'') = NaN"
  by (simp add: parseFloat_str_def is_ws_def white_space_def tail_len_def is_cont_def is_digit_def
      digits_val_def digit_val_def exponent_part_def pow10_def Let_def)

lemma unit_nel: "Math_round (js_mul (parseFloat_str (CHR 0xC2 # CHR 0x85 # ''7'')) (Fin 100)) = NaN"
  by (simp add: parse_nel)

lemma parse_mvs: "parseFloat_str (CHR 0xE1 # CHR 0xA0 # CHR 0x8E # ''7'') = NaN"
  by (simp add: parseFloat_str_def is_ws_def white_space_def tail_len_def is_cont_def is_digit_def
      digits_val_def digit_val_def exponent_part_def pow10_def Let_def)

lemma unit_mvs: "Math_round (js_mul (parseFloat_str (CHR 0xE1 # CHR 0xA0 # CHR 0x8E # ''7'')) (Fin 100)) = NaN"
  by (simp add: parse_mvs)

lemma parse_tie_mul: "parseFloat_str ''6000000000000016'' = Fin 6000000000000016"
  by (simp add: parseFloat_str_def is_ws_def white_space_def tail_len_def is_cont_def is_digit_def
      digits_val_def digit_val_def exponent_part_def pow10_def Let_def,
      rule to_double_pos [where e = "52"])
    (simp_all add: pow2_def round_half_even_def floor_rat_numeral Let_def)

lemma cents_tie_mul: "js_mul (Fin 6000000000000016) (Fin 100) = Fin 600000000000001536"
  by (simp, rule to_double_pos [where e = "59"])
    (simp_all add: pow2_def round_half_even_def floor_rat_numeral Let_def)

lemma unit_tie_mul: "Math_round (js_mul (parseFloat_str ''6000000000000016'') (Fin 100)) = Fin 600000000000001536"
  by (simp only: parse_tie_mul cents_tie_mul) (simp add: floor_rat_numeral)

lemma parse_tie_parse: "parseFloat_str ''9007199254740993'' = Fin 9007199254740992"
  by (simp add: parseFloat_str_def is_ws_def white_space_def tail_len_def is_cont_def is_digit_def
      digits_val_def digit_val_def exponent_part_def pow10_def Let_def,
      rule to_double_pos [where e = "53"])
    (simp_all add: pow2_def round_half_even_def floor_rat_numeral Let_def)

lemma cents_tie_parse: "js_mul (Fin 9007199254740992) (Fin 100) = Fin 900719925474099200"
  by (simp, rule to_double_pos [where e = "59"])
    (simp_all add: pow2_def round_half_even_def floor_rat_numeral Let_def)

lemma unit_tie_parse: "Math_round (js_mul (parseFloat_str ''9007199254740993'') (Fin 100)) = Fin 900719925474099200"
  by (simp only: parse_tie_parse cents_tie_parse) (simp add: floor_rat_numeral)

lemma parse_1em320: "parseFloat_str ''1e-320'' = Fin (253 / 25300281663413827294061918339864663381194581220517764794612669753428792445999418361495047962679640561898384733039601488923726092173224184608376674992592313740189678034570795170558363467761652042654970959809093133570250935428086587327262919456144944542601257064044846194041676826903812816523290938580750782913463467636686848)"
  by (simp add: parseFloat_str_def is_ws_def white_space_def tail_len_def is_cont_def is_digit_def
      digits_val_def digit_val_def exponent_part_def pow10_def Let_def,
      rule to_double_pos [where e = "-1064"])
    (simp_all add: pow2_def round_half_even_def floor_rat_numeral Let_def)

lemma cents_1em320: "js_mul (Fin (253 / 25300281663413827294061918339864663381194581220517764794612669753428792445999418361495047962679640561898384733039601488923726092173224184608376674992592313740189678034570795170558363467761652042654970959809093133570250935428086587327262919456144944542601257064044846194041676826903812816523290938580750782913463467636686848)) (Fin 100) = Fin (6325 / 6325070415853456823515479584966165845298645305129441198653167438357198111499854590373761990669910140474596183259900372230931523043306046152094168748148078435047419508642698792639590866940413010663742739952273283392562733857021646831815729864036236135650314266011211548510419206725953204130822734645187695728365866909171712)"
  by (simp, rule to_double_pos [where e = "-1057"])
    (simp_all add: pow2_def round_half_even_def floor_rat_numeral Let_def)

lemma unit_1em320: "Math_round (js_mul (parseFloat_str ''1e-320'') (Fin 100)) = Fin 0"
  by (simp only: parse_1em320 cents_1em320) (simp add: floor_rat_numeral)

lemma parse_1_7e308: "parseFloat_str ''1.7e308'' = Fin 169999999999999993883079578865998174333346074304075874502773119193537729178160565864330091787584707988572262467983188919169916105593357174268369962062473635296474636515660464935663040684957844303524367815028553272712298986386310828644513212353921123253311675499856875650512437415429217994623324794855339589632"
  by (simp add: parseFloat_str_def is_ws_def white_space_def tail_len_def is_cont_def is_digit_def
      digits_val_def digit_val_def exponent_part_def pow10_def Let_def,
      rule to_double_pos [where e = "1023"])
    (simp_all add: pow2_def round_half_even_def floor_rat_numeral Let_def)

lemma cents_1_7e308: "js_mul (Fin 169999999999999993883079578865998174333346074304075874502773119193537729178160565864330091787584707988572262467983188919169916105593357174268369962062473635296474636515660464935663040684957844303524367815028553272712298986386310828644513212353921123253311675499856875650512437415429217994623324794855339589632) (Fin 100) = PosInf"
  by (simp, rule to_double_pos_overflow [THEN iffD2]) simp_all

lemma unit_1_7e308: "Math_round (js_mul (parseFloat_str ''1.7e308'') (Fin 100)) = PosInf"
  by (simp only: parse_1_7e308 cents_1_7e308) simp

lemma parse_1e400: "parseFloat_str ''1e400'' = PosInf"
  by (simp add: parseFloat_str_def is_ws_def white_space_def tail_len_def is_cont_def is_digit_def
      digits_val_def digit_val_def exponent_part_def pow10_def Let_def,
      rule to_double_pos_overflow [THEN iffD2]) simp_all

lemma unit_1e400: "Math_round (js_mul (parseFloat_str ''1e400'') (Fin 100)) = PosInf"
  by (simp add: parse_1e400)

lemma parse_inf: "parseFloat_str ''Infinity'' = PosInf"
  by (simp add: parseFloat_str_def is_ws_def white_space_def tail_len_def is_cont_def is_digit_def
      digits_val_def digit_val_def exponent_part_def pow10_def Let_def)

lemma unit_inf: "Math_round (js_mul (parseFloat_str ''Infinity'') (Fin 100)) = PosInf"
  by (simp add: parse_inf)

lemma parseFloat_abc: "parseFloat_str ''abc'' = NaN"
  by (simp add: parseFloat_str_def is_ws_def white_space_def tail_len_def is_digit_def)

subsection \<open>The handlers\<close>

lemma demo_fields:
  "req_method (demo_request pm ph am) = ''POST''"
  "req_body (demo_request pm ph am) = Some (demo_body pm ph am)"
  "payment_method (demo_body pm ph am) = SStr pm"
  "phone (demo_body pm ph am) = SStr ph"
  "amount (demo_body pm ph am) = SStr am"
  "email (demo_body pm ph am) = SStr ''jane@example.com''"
  "name (demo_body pm ph am) = SStr ''Jane Doe''"
  "demo_body pm ph am ''payment_method'' = Some (SStr pm)"
  by (simp_all add: demo_request_def demo_body_def payment_method_def phone_def amount_def
      email_def name_def)

lemma demo_respond:
  "respond (demo_world u s t) (GhlUpsert auth gp) = u"
  "respond (demo_world u s t) (StripeCreate key sp) = s"
  "respond (demo_world u s t) (TabbyCheckout auth tp) = t"
  "date_now (demo_world u s t) = 1700000000000"
  by (simp_all add: demo_world_def)

lemma attempt_eq: "attempt w c = [c]"
  by (simp add: attempt_def split: outcome.split)

lemma upsert_call_only:
  "is_upsert_call c \<Longrightarrow>
     \<not> is_stripe_call c \<and> \<not> is_tabby_call c \<and> \<not> is_note_call c \<and> \<not> is_tags_call c"
  by (cases c) simp_all

lemma upsert_calls: "list_all is_upsert_call (snd (upsert_contact env w b))"
  by (simp add: upsert_contact_def Let_def
      split: scalar.split outcome.split json.split option.split)

lemma upsert_calls_none:
  "\<not> list_ex is_stripe_call (snd (upsert_contact env w b))"
  "\<not> list_ex is_tabby_call (snd (upsert_contact env w b))"
  "\<not> list_ex is_note_call (snd (upsert_contact env w b))"
  "\<not> list_ex is_tags_call (snd (upsert_contact env w b))"
  using upsert_calls [of env w b]
  by (auto simp: list_all_iff list_ex_iff dest: upsert_call_only)

lemma upsert_contact_calls:
  "snd (upsert_contact env w b) =
     (if is_set (GHL_API_KEY env) \<and> is_set (GHL_LOCATION_ID env)
      then (case name b of
              SStr nm \<Rightarrow> [GhlUpsert (bearer (GHL_API_KEY env)) (ghlPayload env b nm)]
            | _ \<Rightarrow> [])
      else [])"
  by (simp add: upsert_contact_def Let_def
      split: scalar.split outcome.split json.split option.split)

lemma upsert_unconfigured:
  "\<not> (is_set (GHL_API_KEY env) \<and> is_set (GHL_LOCATION_ID env)) \<Longrightarrow>
     upsert_contact env w b = (null, [])"
  by (auto simp add: upsert_contact_def)

lemma handler_unified_valid:
  assumes "req_method req = ''POST''" "req_body req = Some b"
    and "truthy (phone b)" "truthy (amount b)"
    and "\<not> le_zero (parseFloat (amount b))" "truthy (email b)"
  shows "handler_unified env w req =
     (let g = fst (upsert_contact env w b);
          step2 = (if payment_method b = SStr ''stripe'' then stripe_checkout env w b g
                   else tabby_checkout env w b g)
      in (fst step2, snd (upsert_contact env w b) @ snd step2))"
  using assms by (simp add: handler_unified_def Let_def)

lemma tabby_outcome_calls:
  "\<not> list_ex is_stripe_call (snd (tabby_outcome env w b g d))"
  "\<not> list_ex is_tabby_call (snd (tabby_outcome env w b g d))"
  by (simp_all add: tabby_outcome_def Let_def attempt_eq split: json.split scalar.split)

lemma tabby_checkout_no_stripe:
  "\<not> list_ex is_stripe_call (snd (tabby_checkout env w b g))"
  by (simp add: tabby_checkout_def Let_def tabby_outcome_calls split: outcome.split)

lemma payment_method_raw:
  "(payment_method b = SStr ''stripe'') = (b ''payment_method'' = Some (SStr ''stripe''))"
  by (cases "b ''payment_method''") (simp_all add: payment_method_def)

lemma unit_amounts_append: "unit_amounts (xs @ ys) = unit_amounts xs @ unit_amounts ys"
  by (induction xs rule: unit_amounts.induct) simp_all

lemma unit_amounts_upsert: "unit_amounts (snd (upsert_contact env w b)) = []"
  by (simp add: upsert_contact_def Let_def
      split: scalar.split outcome.split json.split option.split)

lemma unit_amounts_stripe_checkout:
  "is_set (STRIPE_SECRET_KEY env) \<Longrightarrow>
     unit_amounts (snd (stripe_checkout env w b g)) =
       [Math_round (js_mul (parseFloat (amount b)) (Fin 100))]"
  by (simp add: stripe_checkout_def stripe_session_params_def Let_def attempt_eq
      split: outcome.split json.split scalar.split)

lemma stripe_checkout_note:
  "list_ex is_note_call (snd (stripe_checkout env w b g)) \<Longrightarrow>
     field (fst (stripe_checkout env w b g)) ''success'' = yes"
  by (simp add: stripe_checkout_def Let_def attempt_eq caught_unified_def
      split: if_splits outcome.splits json.splits scalar.splits)

lemma tabby_outcome_note:
  "list_ex is_note_call (snd (tabby_outcome env w b g d)) \<Longrightarrow>
     field (fst (tabby_outcome env w b g d)) ''success'' = yes
     \<or> field (fst (tabby_outcome env w b g d)) ''error''
         = Some (str ''Session created but no redirect URL found.'')"
  by (simp add: tabby_outcome_def Let_def attempt_eq caught_unified_def
      split: if_splits json.splits scalar.splits)

lemma tabby_checkout_note:
  "list_ex is_note_call (snd (tabby_checkout env w b g)) \<Longrightarrow>
     field (fst (tabby_checkout env w b g)) ''success'' = yes
     \<or> field (fst (tabby_checkout env w b g)) ''error''
         = Some (str ''Session created but no redirect URL found.'')"
  using tabby_outcome_note [of env w b g]
  by (simp add: tabby_checkout_def Let_def split: if_splits outcome.splits)



lemma tabby_outcome_created:
  "get d ''status'' = Some (str ''created'') \<Longrightarrow>
   fst (tabby_outcome env w b g d) =
     (if truthy_val (webUrl d) then
        Json 200 [(''success'', yes), (''redirect_url'', webUrl d),
                  (''payment_id'', opt_get (get d ''payment'') ''id''),
                  (''session_id'', get d ''id''),
                  (''ghl_contact_id'', Some g),
                  (''payment_method'', Some (str ''tabby''))]
      else
        Json 200 [(''success'', no),
                  (''error'', Some (str ''Session created but no redirect URL found.'')),
                  (''tabby_response'', Some d)])"
  by (cases d) (simp_all add: tabby_outcome_def)








lemma reference_id_date: "date_now w' = date_now w \<Longrightarrow> reference_id w' b = reference_id w b"
  by (simp add: reference_id_def)

lemma payloads_date:
  assumes "date_now w' = date_now w"
  shows "tabbyPayload env w' b = tabbyPayload env w b"
    and "stripe_session_params env w' b g = stripe_session_params env w b g"
  by (simp_all add: tabbyPayload_def stripe_session_params_def reference_id_date [OF assms])

lemma upsert_contact_cong:
  assumes "\<And>a p. respond w' (GhlUpsert a p) = respond w (GhlUpsert a p)"
  shows "upsert_contact env w' b = upsert_contact env w b"
  by (cases "name b") (simp_all add: upsert_contact_def Let_def assms)

lemma stripe_checkout_fst:
  "fst (stripe_checkout env w b g) =
     (if \<not> is_set (STRIPE_SECRET_KEY env) then
        Json 500 [(''error'', Some (str ''Stripe is not configured.''))]
      else case respond w (StripeCreate (STRIPE_SECRET_KEY env) (stripe_session_params env w b g)) of
             Throws msg \<Rightarrow> caught_unified msg
           | Returns session \<Rightarrow>
               if session = null then caught_unified (null_read ''url'')
               else Json 200 [(''success'', yes),
                              (''redirect_url'', get session ''url''),
                              (''session_id'', get session ''id''),
                              (''ghl_contact_id'', Some g),
                              (''payment_method'', Some (str ''stripe''))])"
  by (simp add: stripe_checkout_def Let_def split: outcome.split json.split scalar.split)

lemma stripe_checkout_cong:
  assumes "date_now w' = date_now w"
    and "\<And>k p. respond w' (StripeCreate k p) = respond w (StripeCreate k p)"
  shows "fst (stripe_checkout env w' b g) = fst (stripe_checkout env w b g)"
  by (simp only: stripe_checkout_fst payloads_date [OF assms(1)] assms(2))
lemma tabby_outcome_fst:
  "fst (tabby_outcome env w' b g d) = fst (tabby_outcome env w b g d)"
  by (simp add: tabby_outcome_def split: json.split scalar.split)

lemma tabby_checkout_cong:
  assumes "date_now w' = date_now w"
    and "\<And>a p. respond w' (TabbyCheckout a p) = respond w (TabbyCheckout a p)"
  shows "fst (tabby_checkout env w' b g) = fst (tabby_checkout env w b g)"
  using tabby_outcome_fst [of env w' b g _ w]
  by (simp add: tabby_checkout_def Let_def payloads_date [OF assms(1)] assms(2) split: outcome.split)

lemma handler_unified_cong:
  assumes "date_now w' = date_now w"
    and "\<forall>c. \<not> is_note_call c \<and> \<not> is_tags_call c \<longrightarrow> respond w' c = respond w c"
  shows "fst (handler_unified env w' req) = fst (handler_unified env w req)"
proof -
  have u: "\<And>a p. respond w' (GhlUpsert a p) = respond w (GhlUpsert a p)"
    using assms(2) by simp
  have s: "\<And>k p. respond w' (StripeCreate k p) = respond w (StripeCreate k p)"
    using assms(2) by simp
  have t: "\<And>a p. respond w' (TabbyCheckout a p) = respond w (TabbyCheckout a p)"
    using assms(2) by simp
  show ?thesis
    by (cases "req_body req")
      (simp_all add: handler_unified_def Let_def upsert_contact_cong [of w' w, OF u]
        stripe_checkout_cong [of w' w, OF assms(1) s] tabby_checkout_cong [of w' w, OF assms(1) t])
qed

lemma opt_get_Some: "v \<noteq> null \<Longrightarrow> opt_get (Some v) k = get v k"
  by (cases "(Some v, k)" rule: opt_get.cases) auto

lemma truthy_not_null: "truthy_json v \<Longrightarrow> v \<noteq> null"
  by auto

lemma upsert_contact_configured:
  assumes "is_set (GHL_API_KEY env)" "is_set (GHL_LOCATION_ID env)" "name b = SStr nm"
  shows "upsert_contact env w b =
     (case respond w (GhlUpsert (bearer (GHL_API_KEY env)) (ghlPayload env b nm)) of
        Throws msg \<Rightarrow> null
      | Returns d \<Rightarrow>
          if truthy_val (opt_get (opt_get (Some d) ''contact'') ''id'')
          then the (opt_get (opt_get (Some d) ''contact'') ''id'') else null,
      [GhlUpsert (bearer (GHL_API_KEY env)) (ghlPayload env b nm)])"
proof (cases "respond w (GhlUpsert (bearer (GHL_API_KEY env)) (ghlPayload env b nm))")
  case (Throws msg)
  with assms show ?thesis by (simp add: upsert_contact_def Let_def)
next
  case (Returns d)
  show ?thesis
  proof (cases "d = null")
    case True
    with assms Returns show ?thesis by (simp add: upsert_contact_def Let_def)
  next
    case False
    have u: "upsert_contact env w b =
       (case get d ''contact'' of
          None \<Rightarrow> (null, [GhlUpsert (bearer (GHL_API_KEY env)) (ghlPayload env b nm)])
        | Some contact \<Rightarrow>
            if \<not> truthy_json contact
            then (null, [GhlUpsert (bearer (GHL_API_KEY env)) (ghlPayload env b nm)])
            else (case get contact ''id'' of
                    None \<Rightarrow> (null, [GhlUpsert (bearer (GHL_API_KEY env)) (ghlPayload env b nm)])
                  | Some i \<Rightarrow>
                      if truthy_json i
                      then (i, [GhlUpsert (bearer (GHL_API_KEY env)) (ghlPayload env b nm)])
                      else (null, [GhlUpsert (bearer (GHL_API_KEY env)) (ghlPayload env b nm)])))"
      using assms Returns False
      by (simp add: upsert_contact_def Let_def split: json.split scalar.split)
    show ?thesis
    proof (cases "get d ''contact''")
      case None
      with False Returns show ?thesis by (simp add: u opt_get_Some)
    next
      case (Some ct)
      show ?thesis
      proof (cases "truthy_json ct")
        case f: False
        have "opt_get (Some ct) ''id'' = None \<or> ct \<noteq> null" by auto
        moreover have "ct \<noteq> null \<Longrightarrow> \<not> truthy_val (get ct ''id'')"
          using f by (cases ct) auto
        ultimately have "\<not> truthy_val (opt_get (Some ct) ''id'')"
          by (auto simp add: opt_get_Some)
        with False Returns Some f show ?thesis by (simp add: u opt_get_Some)
      next
        case t: True
        then have "opt_get (Some ct) ''id'' = get ct ''id''"
          by (simp add: opt_get_Some truthy_not_null)
        with False Returns Some t show ?thesis
          by (cases "get ct ''id''") (simp_all add: u opt_get_Some)
      qed
    qed
  qed
qed

lemma upsert_failed:
  assumes "name b = SStr nm"
    and "respond w (GhlUpsert (bearer (GHL_API_KEY env)) (ghlPayload env b nm)) = Throws msg
         \<or> (respond w (GhlUpsert (bearer (GHL_API_KEY env)) (ghlPayload env b nm)) = Returns d
             \<and> \<not> truthy_val (opt_get (opt_get (Some d) ''contact'') ''id''))"
  shows "fst (upsert_contact env w b) = null"
proof (cases "is_set (GHL_API_KEY env) \<and> is_set (GHL_LOCATION_ID env)")
  case False
  then show ?thesis by (simp add: upsert_unconfigured)
next
  case True
  then show ?thesis
    using assms(2) by (auto simp add: upsert_contact_configured [OF _ _ assms(1)])
qed

section \<open>Validation comes before every outbound call\<close>

text \<open>
  C4, as stated: a request without phone, or with an amount that is not positive, is
  answered 400 without any outbound call, in every configuration state. The Tabby handler
  of \<^verbatim>\<open>src/api/create-session.js\<close> checks its configuration before it looks at the
  body: without \<open>TABBY_SECRET_KEY\<close> a request without phone is answered 500.
\<close>

theorem validation_400_counterexample:
  "\<not> truthy (phone (demo_body ''tabby'' [] ''10.00''))
   \<and> status (fst (handler (demo_env\<lparr>TABBY_SECRET_KEY := None\<rparr>) offline
                     (demo_request ''tabby'' [] ''10.00''))) = 500"
  by (simp add: handler_def demo_env_def demo_fields)

text \<open>
  C4, amended: for every POST request whose body is a form object in which the phone is
  empty or the amount is empty or parses to a number \<open>\<le> 0\<close>, no outbound call is made in
  any configuration state; the unified handler answers 400 in every configuration state,
  and the Tabby handler answers 400 when its secret key and merchant code are set and
  500 otherwise.
\<close>

theorem validation_no_outbound_call:
  assumes "req_method req = ''POST''" "req_body req = Some b"
    and "\<not> truthy (phone b) \<or> \<not> truthy (amount b)
         \<or> le_zero (parseFloat (amount b))"
  shows "handler_unified env w req =
           (Json 400 [(''error'', Some (str ''Missing required fields: phone and amount are required.''))], [])
         \<and> snd (handler env w req) = []
         \<and> fst (handler env w req) =
             (if is_set (TABBY_SECRET_KEY env) \<and> is_set (TABBY_MERCHANT_CODE env)
              then Json 400 [(''error'', Some (str ''Missing required fields: phone and amount are required.''))]
              else Json 500 [(''error'', Some (str ''Server misconfigured: missing Tabby keys''))])"
  using assms by (auto simp add: handler_unified_def handler_def Let_def)

theorem validation_no_outbound_call_witness:
  "handler_unified demo_env offline (demo_request ''stripe'' [] ''10.00'') =
     (Json 400 [(''error'', Some (str ''Missing required fields: phone and amount are required.''))], [])
   \<and> handler demo_env offline (demo_request ''stripe'' [] ''10.00'') =
     (Json 400 [(''error'', Some (str ''Missing required fields: phone and amount are required.''))], [])
   \<and> handler_unified demo_env offline
        (demo_request ''stripe'' ''+971501234567'' (CHR 0xC2 # CHR 0xA0 # ''-5'')) =
     (Json 400 [(''error'', Some (str ''Missing required fields: phone and amount are required.''))], [])
   \<and> handler demo_env offline
        (demo_request ''tabby'' ''+971501234567'' (CHR 0xC2 # CHR 0xA0 # ''-5'')) =
     (Json 400 [(''error'', Some (str ''Missing required fields: phone and amount are required.''))], [])"
proof -
  have m: "req_method (demo_request ''stripe'' [] ''10.00'') = ''POST''"
    by (simp add: demo_fields)
  have b: "req_body (demo_request ''stripe'' [] ''10.00'') = Some (demo_body ''stripe'' [] ''10.00'')"
    by (simp add: demo_fields)
  have p: "\<not> truthy (phone (demo_body ''stripe'' [] ''10.00''))"
    by (simp add: demo_fields)
  have k: "is_set (TABBY_SECRET_KEY demo_env) \<and> is_set (TABBY_MERCHANT_CODE demo_env)"
    by (simp add: demo_env_def)
  have 1: "handler_unified demo_env offline (demo_request ''stripe'' [] ''10.00'') =
      (Json 400 [(''error'', Some (str ''Missing required fields: phone and amount are required.''))], [])
    \<and> handler demo_env offline (demo_request ''stripe'' [] ''10.00'') =
      (Json 400 [(''error'', Some (str ''Missing required fields: phone and amount are required.''))], [])"
    using validation_no_outbound_call [OF m b disjI1, OF p, of demo_env offline] k
    by (simp add: prod_eq_iff)
  let ?a = "CHR 0xC2 # CHR 0xA0 # ''-5''"
  have n: "le_zero (parseFloat (amount (demo_body pm ''+971501234567'' ?a)))" for pm
    by (simp add: demo_fields parseFloat_nbsp_minus_5)
  have 2: "handler_unified demo_env offline (demo_request ''stripe'' ''+971501234567'' ?a) =
      (Json 400 [(''error'', Some (str ''Missing required fields: phone and amount are required.''))], [])"
    using validation_no_outbound_call
      [where req = "demo_request ''stripe'' ''+971501234567'' ?a" and env = demo_env and w = offline,
        OF demo_fields(1) demo_fields(2) disjI2 [OF disjI2, OF n]]
    by (rule conjunct1)
  have 3: "handler demo_env offline (demo_request ''tabby'' ''+971501234567'' ?a) =
      (Json 400 [(''error'', Some (str ''Missing required fields: phone and amount are required.''))], [])"
    using validation_no_outbound_call
      [where req = "demo_request ''tabby'' ''+971501234567'' ?a" and env = demo_env and w = offline,
        OF demo_fields(1) demo_fields(2) disjI2 [OF disjI2, OF n]] k
    by (simp add: prod_eq_iff)
  show ?thesis using 1 2 3 by (intro conjI) simp_all
qed

section \<open>Provider configuration and dispatch in the unified handler\<close>

text \<open>
  C5, as stated: with \<^verbatim>\<open>payment_method = "stripe"\<close> and no \<open>STRIPE_SECRET_KEY\<close> the
  handler aborts before any outbound call, the CRM contact upsert included. The unified
  handler runs step 1 first: with the CRM configured the contact upsert is sent, and only
  then is the missing Stripe key answered with 500.
\<close>

theorem stripe_unconfigured_counterexample:
  "payment_method (demo_body ''stripe'' ''+971501234567'' ''19.999'') = SStr ''stripe''
   \<and> \<not> is_set (STRIPE_SECRET_KEY (demo_env\<lparr>STRIPE_SECRET_KEY := None\<rparr>))
   \<and> status (fst (handler_unified (demo_env\<lparr>STRIPE_SECRET_KEY := None\<rparr>)
                     (demo_world (Returns contact_reply) (Throws ''offline'') (Throws ''offline''))
                     (demo_request ''stripe'' ''+971501234567'' ''19.999''))) = 500
   \<and> map is_upsert_call
         (snd (handler_unified (demo_env\<lparr>STRIPE_SECRET_KEY := None\<rparr>)
                 (demo_world (Returns contact_reply) (Throws ''offline'') (Throws ''offline''))
                 (demo_request ''stripe'' ''+971501234567'' ''19.999''))) = [True]"
  by (simp add: handler_unified_def demo_fields demo_respond parseFloat_19_999 Let_def
      upsert_contact_def stripe_checkout_def demo_env_def contact_reply_def)

text \<open>
  C5, amended: for every valid request with \<^verbatim>\<open>payment_method = "stripe"\<close> and no
  \<open>STRIPE_SECRET_KEY\<close>, the response is 500 \<^verbatim>\<open>Stripe is not configured.\<close> and no Stripe
  call is made; the calls made are exactly those of step 1, which runs before the key is
  looked at: the one CRM contact upsert when \<open>GHL_API_KEY\<close> and \<open>GHL_LOCATION_ID\<close> are both
  set and the name is a string, and no call at all otherwise (without one of the two CRM
  settings, or with a name that is no string, on which \<^verbatim>\<open>name.trim()\<close> throws before the
  call).
\<close>

theorem stripe_unconfigured:
  assumes "req_method req = ''POST''" "req_body req = Some b"
    and "truthy (phone b)" "truthy (amount b)"
    and "\<not> le_zero (parseFloat (amount b))" "truthy (email b)"
    and "payment_method b = SStr ''stripe''"
    and "\<not> is_set (STRIPE_SECRET_KEY env)"
  shows "fst (handler_unified env w req) = Json 500 [(''error'', Some (str ''Stripe is not configured.''))]
     \<and> snd (handler_unified env w req) = snd (upsert_contact env w b)
     \<and> snd (handler_unified env w req) =
         (if is_set (GHL_API_KEY env) \<and> is_set (GHL_LOCATION_ID env)
          then (case name b of
                  SStr nm \<Rightarrow> [GhlUpsert (bearer (GHL_API_KEY env)) (ghlPayload env b nm)]
                | _ \<Rightarrow> [])
          else [])
     \<and> list_all is_upsert_call (snd (handler_unified env w req))
     \<and> \<not> list_ex is_stripe_call (snd (handler_unified env w req))
     \<and> (\<not> (is_set (GHL_API_KEY env) \<and> is_set (GHL_LOCATION_ID env)) \<longrightarrow>
          snd (handler_unified env w req) = [])"
proof -
  have h: "handler_unified env w req =
      (Json 500 [(''error'', Some (str ''Stripe is not configured.''))],
       snd (upsert_contact env w b))"
    using assms by (simp add: handler_unified_valid stripe_checkout_def Let_def)
  have c: "snd (upsert_contact env w b) =
         (if is_set (GHL_API_KEY env) \<and> is_set (GHL_LOCATION_ID env)
          then (case name b of
                  SStr nm \<Rightarrow> [GhlUpsert (bearer (GHL_API_KEY env)) (ghlPayload env b nm)]
                | _ \<Rightarrow> [])
          else [])"
    by (rule upsert_contact_calls)
  have p1: "fst (handler_unified env w req)
              = Json 500 [(''error'', Some (str ''Stripe is not configured.''))]"
    by (simp add: h)
  have p2: "snd (handler_unified env w req) = snd (upsert_contact env w b)"
    by (simp add: h)
  have p3: "\<not> (is_set (GHL_API_KEY env) \<and> is_set (GHL_LOCATION_ID env)) \<longrightarrow>
          snd (upsert_contact env w b) = []"
    by (simp add: upsert_unconfigured)
  show ?thesis
    unfolding p2 using p1 c upsert_calls [of env w b] upsert_calls_none(1) [of env w b] p3
    by (intro conjI refl)
qed

theorem stripe_unconfigured_witness:
  "fst (handler_unified (demo_env\<lparr>STRIPE_SECRET_KEY := None, GHL_API_KEY := None\<rparr>) offline
          (demo_request ''stripe'' ''+971501234567'' ''19.999''))
     = Json 500 [(''error'', Some (str ''Stripe is not configured.''))]
   \<and> snd (handler_unified (demo_env\<lparr>STRIPE_SECRET_KEY := None, GHL_API_KEY := None\<rparr>) offline
          (demo_request ''stripe'' ''+971501234567'' ''19.999'')) = []
   \<and> fst (handler_unified (demo_env\<lparr>STRIPE_SECRET_KEY := None\<rparr>) offline
          (demo_request ''stripe'' ''+971501234567'' ''19.999''))
     = Json 500 [(''error'', Some (str ''Stripe is not configured.''))]
   \<and> snd (handler_unified (demo_env\<lparr>STRIPE_SECRET_KEY := None\<rparr>) offline
          (demo_request ''stripe'' ''+971501234567'' ''19.999''))
     = [GhlUpsert ''Bearer ghl_key''
          (ghlPayload (demo_env\<lparr>STRIPE_SECRET_KEY := None\<rparr>)
             (demo_body ''stripe'' ''+971501234567'' ''19.999'') ''Jane Doe'')]
   \<and> fst (handler_unified (demo_env\<lparr>STRIPE_SECRET_KEY := None\<rparr>) offline
          \<lparr>req_method = ''POST'',
           req_body = Some ((demo_body ''stripe'' ''+971501234567'' ''19.999'')
                              (''name'' \<mapsto> SNum (Fin 42)))\<rparr>)
     = Json 500 [(''error'', Some (str ''Stripe is not configured.''))]
   \<and> snd (handler_unified (demo_env\<lparr>STRIPE_SECRET_KEY := None\<rparr>) offline
          \<lparr>req_method = ''POST'',
           req_body = Some ((demo_body ''stripe'' ''+971501234567'' ''19.999'')
                              (''name'' \<mapsto> SNum (Fin 42)))\<rparr>) = []"
proof -
  let ?env = "demo_env\<lparr>STRIPE_SECRET_KEY := None, GHL_API_KEY := None\<rparr>"
  let ?crm = "demo_env\<lparr>STRIPE_SECRET_KEY := None\<rparr>"
  let ?req = "demo_request ''stripe'' ''+971501234567'' ''19.999''"
  let ?b = "demo_body ''stripe'' ''+971501234567'' ''19.999''"
  let ?b42 = "?b(''name'' \<mapsto> SNum (Fin 42))"
  let ?req42 = "\<lparr>req_method = ''POST'', req_body = Some ?b42\<rparr>"
  have 0: "req_body ?req = Some ?b" by (simp add: demo_fields)
  have 1: "req_method ?req = ''POST''" by (simp add: demo_fields)
  have 2: "truthy (phone ?b)" by (simp add: demo_fields)
  have 3: "truthy (amount ?b)" by (simp add: demo_fields)
  have 4: "\<not> le_zero (parseFloat (amount ?b))"
    by (simp add: demo_fields parseFloat_19_999)
  have 5: "truthy (email ?b)" by (simp add: demo_fields)
  have 6: "payment_method ?b = SStr ''stripe''" by (simp add: demo_fields)
  have 7: "\<not> is_set (STRIPE_SECRET_KEY ?env)" by simp
  have 8: "\<not> (is_set (GHL_API_KEY ?env) \<and> is_set (GHL_LOCATION_ID ?env))" by simp
  note r = stripe_unconfigured [OF 1 0 2 3 4 5 6 7, of offline]
  have a: "fst (handler_unified ?env offline ?req)
             = Json 500 [(''error'', Some (str ''Stripe is not configured.''))]"
    by (rule r [THEN conjunct1])
  have b: "snd (handler_unified ?env offline ?req) = []"
    by (rule r [THEN conjunct2, THEN conjunct2, THEN conjunct2, THEN conjunct2, THEN conjunct2,
          THEN mp, OF 8])
  have 9: "\<not> is_set (STRIPE_SECRET_KEY ?crm)" by simp
  have k: "is_set (GHL_API_KEY ?crm) \<and> is_set (GHL_LOCATION_ID ?crm)"
    by (simp add: demo_env_def)
  have k2: "bearer (GHL_API_KEY ?crm) = ''Bearer ghl_key''"
    by (simp add: demo_env_def)
  note s = stripe_unconfigured [OF 1 0 2 3 4 5 6 9, of offline]
  have c: "fst (handler_unified ?crm offline ?req)
             = Json 500 [(''error'', Some (str ''Stripe is not configured.''))]"
    by (rule s [THEN conjunct1])
  have nm: "name ?b = SStr ''Jane Doe''" by (simp add: demo_fields)
  have d: "snd (handler_unified ?crm offline ?req)
             = [GhlUpsert ''Bearer ghl_key'' (ghlPayload ?crm ?b ''Jane Doe'')]"
    using s [THEN conjunct2, THEN conjunct2, THEN conjunct1]
    by (simp only: if_P [OF k] nm scalar.case k2)
  have f: "req_method ?req42 = ''POST''" "req_body ?req42 = Some ?b42"
    "truthy (phone ?b42)" "truthy (amount ?b42)" "\<not> le_zero (parseFloat (amount ?b42))"
    "truthy (email ?b42)" "payment_method ?b42 = SStr ''stripe''"
    by (simp_all add: demo_body_def phone_def amount_def email_def payment_method_def
        parseFloat_19_999)
  note t = stripe_unconfigured [OF f 9, of offline]
  have e: "fst (handler_unified ?crm offline ?req42)
             = Json 500 [(''error'', Some (str ''Stripe is not configured.''))]"
    by (rule t [THEN conjunct1])
  have nm42: "name ?b42 = SNum (Fin 42)" by (simp add: name_def)
  have g: "snd (handler_unified ?crm offline ?req42) = []"
    using t [THEN conjunct2, THEN conjunct2, THEN conjunct1]
    by (simp only: if_P [OF k] nm42 scalar.case)
  show ?thesis using a b c d e g by (intro conjI)
qed

text \<open>
  C10: provider dispatch is decided by equality with the string \<^verbatim>\<open>stripe\<close> alone. For
  every valid request whose \<^verbatim>\<open>payment_method\<close> is anything else (another string, another
  JSON scalar, or absent), the handler does what the Tabby path does: no Stripe call is
  made, and either the Tabby checkout call is sent or, without the Tabby keys, the answer
  is 500 \<^verbatim>\<open>Tabby is not configured.\<close>
\<close>

theorem dispatch_by_equality_with_stripe:
  assumes "req_method req = ''POST''" "req_body req = Some b"
    and "truthy (phone b)" "truthy (amount b)"
    and "\<not> le_zero (parseFloat (amount b))" "truthy (email b)"
    and "b ''payment_method'' \<noteq> Some (SStr ''stripe'')"
  shows "handler_unified env w req =
           (fst (tabby_checkout env w b (fst (upsert_contact env w b))),
            snd (upsert_contact env w b)
            @ snd (tabby_checkout env w b (fst (upsert_contact env w b))))
     \<and> \<not> list_ex is_stripe_call (snd (handler_unified env w req))
     \<and> (if is_set (TABBY_SECRET_KEY env) \<and> is_set (TABBY_MERCHANT_CODE env)
         then filter is_tabby_call (snd (handler_unified env w req)) =
                [TabbyCheckout (bearer (TABBY_PUBLIC_KEY env)) (tabbyPayload env w b)]
         else fst (handler_unified env w req) =
                Json 500 [(''error'', Some (str ''Tabby is not configured.''))])"
proof -
  let ?b = b
  let ?g = "fst (upsert_contact env w ?b)"
  have pm: "payment_method ?b \<noteq> SStr ''stripe''"
    using assms(7) by (simp add: payment_method_raw)
  have h: "handler_unified env w req =
      (fst (tabby_checkout env w ?b ?g), snd (upsert_contact env w ?b) @ snd (tabby_checkout env w ?b ?g))"
    using assms(1-6) pm by (simp add: handler_unified_valid Let_def)
  have f: "filter is_tabby_call (snd (upsert_contact env w ?b)) = []"
    using upsert_calls_none(2) [of env w ?b] by (simp add: list_ex_iff filter_empty_conv)
  have t: "is_set (TABBY_SECRET_KEY env) \<and> is_set (TABBY_MERCHANT_CODE env) \<Longrightarrow>
      filter is_tabby_call (snd (tabby_checkout env w ?b ?g)) =
        [TabbyCheckout (bearer (TABBY_PUBLIC_KEY env)) (tabbyPayload env w ?b)]"
    using tabby_outcome_calls(2) [of env w ?b ?g]
    by (auto simp add: tabby_checkout_def Let_def list_ex_iff filter_empty_conv split: outcome.split)
  have n: "\<not> (is_set (TABBY_SECRET_KEY env) \<and> is_set (TABBY_MERCHANT_CODE env)) \<Longrightarrow>
      fst (tabby_checkout env w ?b ?g) = Json 500 [(''error'', Some (str ''Tabby is not configured.''))]"
    by (auto simp add: tabby_checkout_def)
  show ?thesis
    using t n by (simp add: h f upsert_calls_none tabby_checkout_no_stripe)
qed

theorem dispatch_by_equality_with_stripe_witness:
  "filter is_tabby_call
     (snd (handler_unified demo_env
             (demo_world (Returns contact_reply) (Returns session_reply) (Returns created_reply))
             (demo_request ''STRIPE'' ''+971501234567'' ''19.999'')))
   = [TabbyCheckout ''Bearer pk_test''
        (tabbyPayload demo_env
           (demo_world (Returns contact_reply) (Returns session_reply) (Returns created_reply))
           (demo_body ''STRIPE'' ''+971501234567'' ''19.999''))]
   \<and> \<not> list_ex is_stripe_call
     (snd (handler_unified demo_env
             (demo_world (Returns contact_reply) (Returns session_reply) (Returns created_reply))
             (demo_request ''STRIPE'' ''+971501234567'' ''19.999'')))"
proof -
  let ?req = "demo_request ''STRIPE'' ''+971501234567'' ''19.999''"
  let ?b = "demo_body ''STRIPE'' ''+971501234567'' ''19.999''"
  have 0: "req_body ?req = Some ?b" by (simp add: demo_fields)
  let ?w = "demo_world (Returns contact_reply) (Returns session_reply) (Returns created_reply)"
  have 1: "req_method ?req = ''POST''" by (simp add: demo_fields)
  have 2: "truthy (phone ?b)" by (simp add: demo_fields)
  have 3: "truthy (amount ?b)" by (simp add: demo_fields)
  have 4: "\<not> le_zero (parseFloat (amount ?b))"
    by (simp add: demo_fields parseFloat_19_999)
  have 5: "truthy (email ?b)" by (simp add: demo_fields)
  have 6: "?b ''payment_method'' \<noteq> Some (SStr ''stripe'')" by (simp add: demo_fields)
  have k: "is_set (TABBY_SECRET_KEY demo_env) \<and> is_set (TABBY_MERCHANT_CODE demo_env)"
    by (simp add: demo_env_def)
  have k2: "bearer (TABBY_PUBLIC_KEY demo_env) = ''Bearer pk_test''"
    by (simp add: demo_env_def)
  note r = dispatch_by_equality_with_stripe [OF 1 0 2 3 4 5 6, of demo_env ?w]
  have a: "\<not> list_ex is_stripe_call (snd (handler_unified demo_env ?w ?req))"
    by (rule r [THEN conjunct2, THEN conjunct1])
  have c: "filter is_tabby_call (snd (handler_unified demo_env ?w ?req)) =
             [TabbyCheckout ''Bearer pk_test'' (tabbyPayload demo_env ?w ?b)]"
    using r [THEN conjunct2, THEN conjunct2] by (simp only: if_P [OF k] k2)
  show ?thesis using c a by (rule conjI)
qed

section \<open>Amounts\<close>

text \<open>
  C8: on the Stripe path the amount is converted to minor units by rounding. For every
  valid request with \<^verbatim>\<open>payment_method = "stripe"\<close> and a configured Stripe key, exactly one
  Stripe call is made and its \<^verbatim>\<open>unit_amount\<close> is \<^verbatim>\<open>Math.round(parseFloat(amount) * 100)\<close>, in
  double arithmetic; for the amount \<^verbatim>\<open>"19.999"\<close> this is 2000, not the truncated 1999.

  In that arithmetic: when the amount parses to the double \<open>x\<close>, the product is a double
  nearest to \<open>100 x\<close> (\<^verbatim>\<open>Infinity\<close> from \<open>2\<^sup>1\<^sup>0\<^sup>2\<^sup>4 - 2\<^sup>9\<^sup>7\<^sup>0\<close> on), and the unit amount is the
  integer nearest to the product, a half counting upwards; an amount that parses to
  \<^verbatim>\<open>Infinity\<close> or to \<open>NaN\<close> gives that unit amount. The amount 12.5 given as a number gives
  1250, and \<^verbatim>\<open>true\<close> gives \<open>NaN\<close>. The list gives the unit amount of further amounts:
  fractions whose product falls next to a half, exponents, signs, text after the
  number, leading white space (the twenty-five white space characters of JavaScript in
  a row; U+200B, U+0085 and U+180E are none), a tie in each of the two roundings to a
  double, a subnormal, and an overflow in the product and in the number read.
\<close>

theorem stripe_unit_amount_rounded:
  assumes "req_method req = ''POST''" "req_body req = Some b"
    and "truthy (phone b)" "truthy (amount b)"
    and "\<not> le_zero (parseFloat (amount b))" "truthy (email b)"
    and "payment_method b = SStr ''stripe''"
    and "is_set (STRIPE_SECRET_KEY env)"
  shows "unit_amounts (snd (handler_unified env w req)) =
           [Math_round (js_mul (parseFloat (amount b)) (Fin 100))]
     \<and> (amount b = SStr ''19.999'' \<longrightarrow>
          unit_amounts (snd (handler_unified env w req)) = [Fin 2000])
     \<and> (\<forall>x. parseFloat (amount b) = Fin x \<longrightarrow>
          (if 2 powi 1024 - 2 powi 970 \<le> x * 100
           then unit_amounts (snd (handler_unified env w req)) = [PosInf]
           else \<exists>y. nearest_double (x * 100) y
                  \<and> unit_amounts (snd (handler_unified env w req)) = [Fin (of_int \<lfloor>y + 1 / 2\<rfloor>)]))
     \<and> (parseFloat (amount b) = PosInf \<longrightarrow>
          unit_amounts (snd (handler_unified env w req)) = [PosInf])
     \<and> (parseFloat (amount b) = NaN \<longrightarrow>
          unit_amounts (snd (handler_unified env w req)) = [NaN])
     \<and> (amount b = SNum (Fin (25 / 2)) \<longrightarrow>
          unit_amounts (snd (handler_unified env w req)) = [Fin 1250])
     \<and> (amount b = SBool True \<longrightarrow>
          unit_amounts (snd (handler_unified env w req)) = [NaN])
     \<and> list_all (\<lambda>(a, n). amount b = SStr a \<longrightarrow>
                   unit_amounts (snd (handler_unified env w req)) = [n])
         [(''8.345'', Fin 835), (''1.005'', Fin 100), (''0.125'', Fin 13),
          (''0.625'', Fin 63), (''33.335'', Fin 3334), (''4.35'', Fin 435),
          (''0.07'', Fin 7), (''100'', Fin 10000), (''1e3'', Fin 100000),
          (''1.5E+2'', Fin 15000), (''25e-1'', Fin 250), (''+5'', Fin 500),
          (''.5'', Fin 50), (''5.'', Fin 500), (''5e'', Fin 500),
          (''12.5abc'', Fin 1250), (''1.2.3'', Fin 120),
          (CHR 0x20 # CHR 0x09 # ''49.99'', Fin 4999),
          (CHR 0xC2 # CHR 0xA0 # ''19.999'', Fin 2000),
          (CHR 0x09 # CHR 0x0A # CHR 0x0B # CHR 0x0C # CHR 0x0D # CHR 0x20 # CHR 0xC2 #
           CHR 0xA0 # CHR 0xE1 # CHR 0x9A # CHR 0x80 # CHR 0xE2 # CHR 0x80 # CHR 0x80 #
           CHR 0xE2 # CHR 0x80 # CHR 0x81 # CHR 0xE2 # CHR 0x80 # CHR 0x82 # CHR 0xE2 #
           CHR 0x80 # CHR 0x83 # CHR 0xE2 # CHR 0x80 # CHR 0x84 # CHR 0xE2 # CHR 0x80 #
           CHR 0x85 # CHR 0xE2 # CHR 0x80 # CHR 0x86 # CHR 0xE2 # CHR 0x80 # CHR 0x87 #
           CHR 0xE2 # CHR 0x80 # CHR 0x88 # CHR 0xE2 # CHR 0x80 # CHR 0x89 # CHR 0xE2 #
           CHR 0x80 # CHR 0x8A # CHR 0xE2 # CHR 0x80 # CHR 0xA8 # CHR 0xE2 # CHR 0x80 #
           CHR 0xA9 # CHR 0xE2 # CHR 0x80 # CHR 0xAF # CHR 0xE2 # CHR 0x81 # CHR 0x9F #
           CHR 0xE3 # CHR 0x80 # CHR 0x80 # CHR 0xEF # CHR 0xBB # CHR 0xBF #
           ''7'', Fin 700),
          (CHR 0xE2 # CHR 0x80 # CHR 0x8B # ''7'', NaN),
          (CHR 0xC2 # CHR 0x85 # ''7'', NaN),
          (CHR 0xE1 # CHR 0xA0 # CHR 0x8E # ''7'', NaN),
          (''6000000000000016'', Fin 600000000000001536),
          (''9007199254740993'', Fin 900719925474099200), (''1e-320'', Fin 0),
          (''1.7e308'', PosInf), (''1e400'', PosInf), (''Infinity'', PosInf)]"
proof -
  let ?u = "Math_round (js_mul (parseFloat (amount b)) (Fin 100))"
  have u: "unit_amounts (snd (handler_unified env w req)) = [?u]"
    using assms
    by (simp add: handler_unified_valid Let_def unit_amounts_append unit_amounts_upsert
        unit_amounts_stripe_checkout)
  have a: "amount b = SStr ''19.999'' \<longrightarrow> [?u] = [Fin 2000]"
    by (simp add: unit_19_999)
  have g: "\<forall>x. parseFloat (amount b) = Fin x \<longrightarrow>
          (if 2 powi 1024 - 2 powi 970 \<le> x * 100 then [?u] = [PosInf]
           else \<exists>y. nearest_double (x * 100) y \<and> [?u] = [Fin (of_int \<lfloor>y + 1 / 2\<rfloor>)])"
  proof (intro allI impI)
    fix x
    assume x: "parseFloat (amount b) = Fin x"
    with assms(5) have "0 < x" by simp
    from unit_amount_semantics [OF this]
    show "if 2 powi 1024 - 2 powi 970 \<le> x * 100 then [?u] = [PosInf]
          else \<exists>y. nearest_double (x * 100) y \<and> [?u] = [Fin (of_int \<lfloor>y + 1 / 2\<rfloor>)]"
      by (simp only: x list.inject simp_thms)
  qed
  have i: "parseFloat (amount b) = PosInf \<longrightarrow> [?u] = [PosInf]"
    by simp
  have n: "parseFloat (amount b) = NaN \<longrightarrow> [?u] = [NaN]"
    by simp
  have c: "amount b = SNum (Fin (25 / 2)) \<longrightarrow> [?u] = [Fin 1250]"
  proof
    assume "amount b = SNum (Fin (25 / 2))"
    then have "parseFloat (amount b) = Fin (25 / 2)" by simp
    then show "[?u] = [Fin 1250]"
      by (simp only: cents_12_5abc) (simp add: floor_rat_numeral)
  qed
  have d: "amount b = SBool True \<longrightarrow> [?u] = [NaN]"
    by simp
  have t: "list_all (\<lambda>(a, n). amount b = SStr a \<longrightarrow> [?u] = [n])
      [(''8.345'', Fin 835), (''1.005'', Fin 100), (''0.125'', Fin 13),
       (''0.625'', Fin 63), (''33.335'', Fin 3334), (''4.35'', Fin 435),
       (''0.07'', Fin 7), (''100'', Fin 10000), (''1e3'', Fin 100000),
       (''1.5E+2'', Fin 15000), (''25e-1'', Fin 250), (''+5'', Fin 500),
       (''.5'', Fin 50), (''5.'', Fin 500), (''5e'', Fin 500),
       (''12.5abc'', Fin 1250), (''1.2.3'', Fin 120),
       (CHR 0x20 # CHR 0x09 # ''49.99'', Fin 4999),
       (CHR 0xC2 # CHR 0xA0 # ''19.999'', Fin 2000),
       (CHR 0x09 # CHR 0x0A # CHR 0x0B # CHR 0x0C # CHR 0x0D # CHR 0x20 # CHR 0xC2 #
        CHR 0xA0 # CHR 0xE1 # CHR 0x9A # CHR 0x80 # CHR 0xE2 # CHR 0x80 # CHR 0x80 #
        CHR 0xE2 # CHR 0x80 # CHR 0x81 # CHR 0xE2 # CHR 0x80 # CHR 0x82 # CHR 0xE2 #
        CHR 0x80 # CHR 0x83 # CHR 0xE2 # CHR 0x80 # CHR 0x84 # CHR 0xE2 # CHR 0x80 #
        CHR 0x85 # CHR 0xE2 # CHR 0x80 # CHR 0x86 # CHR 0xE2 # CHR 0x80 # CHR 0x87 #
        CHR 0xE2 # CHR 0x80 # CHR 0x88 # CHR 0xE2 # CHR 0x80 # CHR 0x89 # CHR 0xE2 #
        CHR 0x80 # CHR 0x8A # CHR 0xE2 # CHR 0x80 # CHR 0xA8 # CHR 0xE2 # CHR 0x80 #
        CHR 0xA9 # CHR 0xE2 # CHR 0x80 # CHR 0xAF # CHR 0xE2 # CHR 0x81 # CHR 0x9F #
        CHR 0xE3 # CHR 0x80 # CHR 0x80 # CHR 0xEF # CHR 0xBB # CHR 0xBF #
        ''7'', Fin 700),
       (CHR 0xE2 # CHR 0x80 # CHR 0x8B # ''7'', NaN),
       (CHR 0xC2 # CHR 0x85 # ''7'', NaN),
       (CHR 0xE1 # CHR 0xA0 # CHR 0x8E # ''7'', NaN),
       (''6000000000000016'', Fin 600000000000001536),
       (''9007199254740993'', Fin 900719925474099200), (''1e-320'', Fin 0),
       (''1.7e308'', PosInf), (''1e400'', PosInf), (''Infinity'', PosInf)]"
    by (simp add:
        unit_8_345 unit_1_005 unit_0_125 unit_0_625 unit_33_335 unit_4_35 unit_0_07
        unit_100 unit_1e3 unit_1_5E2 unit_25em1 unit_plus5 unit_dot5 unit_5dot unit_5e
        unit_12_5abc unit_1_2_3 unit_sp_49_99 unit_nbsp_19_999 unit_all_ws unit_zwsp
        unit_nel unit_mvs unit_tie_mul unit_tie_parse unit_1em320 unit_1_7e308
        unit_1e400 unit_inf)
  show ?thesis
    unfolding u using a g i n c d t by (intro conjI refl)
qed

theorem stripe_unit_amount_rounded_witness:
  "map (\<lambda>a. unit_amounts
               (snd (handler_unified demo_env
                       (demo_world (Returns contact_reply) (Returns session_reply) (Throws ''offline''))
                       (demo_request ''stripe'' ''+971501234567'' a))))
     [''19.999'', ''8.345'', ''1e3'', CHR 0xC2 # CHR 0xA0 # ''19.999'', ''6000000000000016'',
      ''9007199254740993'', ''1.7e308'']
   = [[Fin 2000], [Fin 835], [Fin 100000], [Fin 2000], [Fin 600000000000001536],
      [Fin 900719925474099200], [PosInf]]"
proof -
  let ?w = "demo_world (Returns contact_reply) (Returns session_reply) (Throws ''offline'')"
  have r: "unit_amounts (snd (handler_unified demo_env ?w (demo_request ''stripe'' ''+971501234567'' a)))
             = [Math_round (js_mul (parseFloat_str a) (Fin 100))]"
    if "a \<noteq> []" "\<not> le_zero (parseFloat_str a)" for a
    using stripe_unit_amount_rounded
      [of "demo_request ''stripe'' ''+971501234567'' a" "demo_body ''stripe'' ''+971501234567'' a"
        demo_env ?w, THEN conjunct1] that
    by (simp add: demo_fields demo_env_def)
  have "unit_amounts (snd (handler_unified demo_env ?w (demo_request ''stripe'' ''+971501234567'' ''19.999'')))
          = [Fin 2000]"
  proof -
    have "\<not> le_zero (parseFloat_str ''19.999'')" by (simp add: parseFloat_19_999)
    then have "unit_amounts (snd (handler_unified demo_env ?w (demo_request ''stripe'' ''+971501234567'' ''19.999'')))
          = [Math_round (js_mul (parseFloat_str ''19.999'') (Fin 100))]"
      by (intro r) simp_all
    then show ?thesis by (simp only: unit_19_999)
  qed
  moreover have "unit_amounts (snd (handler_unified demo_env ?w (demo_request ''stripe'' ''+971501234567'' ''8.345'')))
          = [Fin 835]"
  proof -
    have "\<not> le_zero (parseFloat_str ''8.345'')" by (simp add: parse_8_345)
    then have "unit_amounts (snd (handler_unified demo_env ?w (demo_request ''stripe'' ''+971501234567'' ''8.345'')))
          = [Math_round (js_mul (parseFloat_str ''8.345'') (Fin 100))]"
      by (intro r) simp_all
    then show ?thesis by (simp only: unit_8_345)
  qed
  moreover have "unit_amounts (snd (handler_unified demo_env ?w (demo_request ''stripe'' ''+971501234567'' ''1e3'')))
          = [Fin 100000]"
  proof -
    have "\<not> le_zero (parseFloat_str ''1e3'')" by (simp add: parse_1e3)
    then have "unit_amounts (snd (handler_unified demo_env ?w (demo_request ''stripe'' ''+971501234567'' ''1e3'')))
          = [Math_round (js_mul (parseFloat_str ''1e3'') (Fin 100))]"
      by (intro r) simp_all
    then show ?thesis by (simp only: unit_1e3)
  qed
  moreover have "unit_amounts (snd (handler_unified demo_env ?w (demo_request ''stripe'' ''+971501234567'' (CHR 0xC2 # CHR 0xA0 # ''19.999''))))
          = [Fin 2000]"
  proof -
    have "\<not> le_zero (parseFloat_str (CHR 0xC2 # CHR 0xA0 # ''19.999''))" by (simp add: parse_nbsp_19_999)
    then have "unit_amounts (snd (handler_unified demo_env ?w (demo_request ''stripe'' ''+971501234567'' (CHR 0xC2 # CHR 0xA0 # ''19.999''))))
          = [Math_round (js_mul (parseFloat_str (CHR 0xC2 # CHR 0xA0 # ''19.999'')) (Fin 100))]"
      by (intro r) simp_all
    then show ?thesis by (simp only: unit_nbsp_19_999)
  qed
  moreover have "unit_amounts (snd (handler_unified demo_env ?w (demo_request ''stripe'' ''+971501234567'' ''6000000000000016'')))
          = [Fin 600000000000001536]"
  proof -
    have "\<not> le_zero (parseFloat_str ''6000000000000016'')" by (simp add: parse_tie_mul)
    then have "unit_amounts (snd (handler_unified demo_env ?w (demo_request ''stripe'' ''+971501234567'' ''6000000000000016'')))
          = [Math_round (js_mul (parseFloat_str ''6000000000000016'') (Fin 100))]"
      by (intro r) simp_all
    then show ?thesis by (simp only: unit_tie_mul)
  qed
  moreover have "unit_amounts (snd (handler_unified demo_env ?w (demo_request ''stripe'' ''+971501234567'' ''9007199254740993'')))
          = [Fin 900719925474099200]"
  proof -
    have "\<not> le_zero (parseFloat_str ''9007199254740993'')" by (simp add: parse_tie_parse)
    then have "unit_amounts (snd (handler_unified demo_env ?w (demo_request ''stripe'' ''+971501234567'' ''9007199254740993'')))
          = [Math_round (js_mul (parseFloat_str ''9007199254740993'') (Fin 100))]"
      by (intro r) simp_all
    then show ?thesis by (simp only: unit_tie_parse)
  qed
  moreover have "unit_amounts (snd (handler_unified demo_env ?w (demo_request ''stripe'' ''+971501234567'' ''1.7e308'')))
          = [PosInf]"
  proof -
    have "\<not> le_zero (parseFloat_str ''1.7e308'')" by (simp add: parse_1_7e308)
    then have "unit_amounts (snd (handler_unified demo_env ?w (demo_request ''stripe'' ''+971501234567'' ''1.7e308'')))
          = [Math_round (js_mul (parseFloat_str ''1.7e308'') (Fin 100))]"
      by (intro r) simp_all
    then show ?thesis by (simp only: unit_1_7e308)
  qed
  ultimately show ?thesis by (simp only: list.map)
qed

text \<open>
  C3: a request passes validation only with a non-empty phone and an amount that parses
  to a positive number; a non-numeric amount such as \<^verbatim>\<open>"abc"\<close> is rejected with 400. The
  handlers test \<^verbatim>\<open>parseFloat(amount) <= 0\<close>, which is false for \<open>NaN\<close>: the request below,
  with the amount \<^verbatim>\<open>"abc"\<close> (which parses to \<open>NaN\<close>, no positive number), passes validation
  in both handlers, the Tabby call is made with the amount \<open>NaN\<close>, and the answer is 200.
\<close>

theorem non_numeric_amount_passes_validation:
  "parseFloat (amount (demo_body ''tabby'' ''+971501234567'' ''abc'')) = NaN
   \<and> gt_zero (parseFloat (amount (demo_body ''tabby'' ''+971501234567'' ''abc''))) = False
   \<and> status (fst (handler_unified demo_env
                     (demo_world (Returns contact_reply) (Throws ''offline'') (Returns created_reply))
                     (demo_request ''tabby'' ''+971501234567'' ''abc''))) = 200
   \<and> field (fst (handler_unified demo_env
                    (demo_world (Returns contact_reply) (Throws ''offline'') (Returns created_reply))
                    (demo_request ''tabby'' ''+971501234567'' ''abc''))) ''success'' = yes
   \<and> map pay_amount
        [tabbyPayload demo_env
           (demo_world (Returns contact_reply) (Throws ''offline'') (Returns created_reply))
           (demo_body ''tabby'' ''+971501234567'' ''abc'')] = [NaN]
   \<and> map is_tabby_call
        (snd (handler_unified demo_env
                (demo_world (Returns contact_reply) (Throws ''offline'') (Returns created_reply))
                (demo_request ''tabby'' ''+971501234567'' ''abc''))) = [False, True, False]
   \<and> status (fst (handler demo_env
                     (demo_world (Returns contact_reply) (Throws ''offline'') (Returns created_reply))
                     (demo_request ''tabby'' ''+971501234567'' ''abc''))) = 200
   \<and> map is_tabby_call
        (snd (handler demo_env
                (demo_world (Returns contact_reply) (Throws ''offline'') (Returns created_reply))
                (demo_request ''tabby'' ''+971501234567'' ''abc''))) = [True]"
  by (simp add: handler_unified_def handler_def tabby_response_def tabby_checkout_def
      tabby_outcome_def upsert_contact_def tabbyPayload_def
      demo_fields demo_respond parseFloat_abc Let_def attempt_eq webUrl_def installments_def
      or_else_def demo_env_def contact_reply_def created_reply_def)

theorem non_numeric_amount_passes_validation_witness:
  "status (fst (handler_unified demo_env
                  (demo_world (Returns contact_reply) (Throws ''offline'') (Returns created_reply))
                  (demo_request ''tabby'' ''+971501234567'' ''abc''))) = 200"
  by (rule non_numeric_amount_passes_validation [THEN conjunct2, THEN conjunct2, THEN conjunct1])

section \<open>The Tabby keys\<close>

text \<open>
  C6: the Tabby path requires the secret key, the public key and the merchant code, and
  answers 500 without a Tabby call when one of them is absent. Both handlers check the
  secret key and the merchant code only; the public key, the one sent to Tabby, is not
  checked: without it the call is made with the header \<^verbatim>\<open>Bearer undefined\<close>.
\<close>

theorem missing_public_key_not_checked:
  "\<not> is_set (TABBY_PUBLIC_KEY (demo_env\<lparr>TABBY_PUBLIC_KEY := None\<rparr>))
   \<and> handler (demo_env\<lparr>TABBY_PUBLIC_KEY := None\<rparr>)
        (demo_world (Returns contact_reply) (Throws ''offline'') (Returns created_reply))
        (demo_request ''tabby'' ''+971501234567'' ''19.999'')
      = (Json 200 [(''success'', yes), (''redirect_url'', Some (str ''https://pay/x'')),
                   (''payment_id'', Some (str ''payment_1'')),
                   (''session_id'', Some (str ''session_1''))],
         [TabbyCheckout ''Bearer undefined''
            (payload (demo_env\<lparr>TABBY_PUBLIC_KEY := None\<rparr>)
               (demo_world (Returns contact_reply) (Throws ''offline'') (Returns created_reply))
               (demo_body ''tabby'' ''+971501234567'' ''19.999''))])
   \<and> status (fst (handler_unified (demo_env\<lparr>TABBY_PUBLIC_KEY := None\<rparr>)
                     (demo_world (Returns contact_reply) (Throws ''offline'') (Returns created_reply))
                     (demo_request ''tabby'' ''+971501234567'' ''19.999''))) = 200
   \<and> filter is_tabby_call
        (snd (handler_unified (demo_env\<lparr>TABBY_PUBLIC_KEY := None\<rparr>)
                (demo_world (Returns contact_reply) (Throws ''offline'') (Returns created_reply))
                (demo_request ''tabby'' ''+971501234567'' ''19.999'')))
      = [TabbyCheckout ''Bearer undefined''
           (tabbyPayload (demo_env\<lparr>TABBY_PUBLIC_KEY := None\<rparr>)
              (demo_world (Returns contact_reply) (Throws ''offline'') (Returns created_reply))
              (demo_body ''tabby'' ''+971501234567'' ''19.999''))]"
  by (simp add: handler_unified_def handler_def tabby_response_def tabby_checkout_def
      tabby_outcome_def upsert_contact_def
      demo_fields demo_respond parseFloat_19_999 Let_def attempt_eq webUrl_def installments_def
      or_else_def demo_env_def contact_reply_def created_reply_def)

theorem missing_public_key_not_checked_witness:
  "status (fst (handler_unified (demo_env\<lparr>TABBY_PUBLIC_KEY := None\<rparr>)
                  (demo_world (Returns contact_reply) (Throws ''offline'') (Returns created_reply))
                  (demo_request ''tabby'' ''+971501234567'' ''19.999''))) = 200"
  by (rule missing_public_key_not_checked [THEN conjunct2, THEN conjunct2, THEN conjunct1])

section \<open>The CRM note\<close>

text \<open>
  C9, as stated: whenever the response has \<^verbatim>\<open>success:false\<close>, no CRM note has been posted.
  The unified handler posts the note as soon as the Tabby reply has the status
  \<^verbatim>\<open>created\<close>, before it looks for the redirect URL: a reply without \<^verbatim>\<open>web_url\<close> is
  answered with \<^verbatim>\<open>success:false\<close> after the note has been posted.
\<close>

theorem note_posted_with_success_false_counterexample:
  "field (fst (handler_unified demo_env
                 (demo_world (Returns contact_reply) (Throws ''offline'') (Returns created_without_url))
                 (demo_request ''tabby'' ''+971501234567'' ''19.999''))) ''success'' = no
   \<and> map is_note_call
        (snd (handler_unified demo_env
                (demo_world (Returns contact_reply) (Throws ''offline'') (Returns created_without_url))
                (demo_request ''tabby'' ''+971501234567'' ''19.999''))) = [False, False, True]"
  by (simp add: handler_unified_def tabby_checkout_def tabby_outcome_def upsert_contact_def
      demo_fields demo_respond parseFloat_19_999 Let_def attempt_eq webUrl_def installments_def
      demo_env_def contact_reply_def created_without_url_def)

text \<open>
  C9, amended: the note is posted only after the provider has created a session. Whenever
  the response is neither \<^verbatim>\<open>success:true\<close> nor the diagnostic
  \<^verbatim>\<open>Session created but no redirect URL found.\<close>, no CRM note has been posted for that
  request.
\<close>

theorem note_only_after_created_session:
  "field (fst (handler_unified env w req)) ''success'' \<noteq> yes
   \<and> field (fst (handler_unified env w req)) ''error''
       \<noteq> Some (str ''Session created but no redirect URL found.'')
   \<longrightarrow> \<not> list_ex is_note_call (snd (handler_unified env w req))"
proof (cases "req_body req")
  case None
  then show ?thesis
    by (simp add: handler_unified_def)
next
  case (Some b)
  show ?thesis
  proof (cases "req_method req = ''POST'' \<and> truthy (phone b) \<and> truthy (amount b)
      \<and> \<not> le_zero (parseFloat (amount b)) \<and> truthy (email b)")
    case True
    then have h: "handler_unified env w req =
       (let g = fst (upsert_contact env w b);
            step2 = (if payment_method b = SStr ''stripe'' then stripe_checkout env w b g
                     else tabby_checkout env w b g)
        in (fst step2, snd (upsert_contact env w b) @ snd step2))"
      using Some by (simp add: handler_unified_valid)
    show ?thesis
      using stripe_checkout_note [of env w b "fst (upsert_contact env w b)"]
        tabby_checkout_note [of env w b "fst (upsert_contact env w b)"]
        upsert_calls_none(3) [of env w b]
      by (auto simp add: h Let_def)
  next
    case False
    then show ?thesis
      using Some by (auto simp add: handler_unified_def Let_def)
  qed
qed

theorem note_only_after_created_session_witness:
  "\<not> list_ex is_note_call
       (snd (handler_unified demo_env
               (demo_world (Returns contact_reply) (Throws ''offline'') (Returns rejected_reply))
               (demo_request ''tabby'' ''+971501234567'' ''19.999'')))"
proof -
  let ?w = "demo_world (Returns contact_reply) (Throws ''offline'') (Returns rejected_reply)"
  let ?req = "demo_request ''tabby'' ''+971501234567'' ''19.999''"
  let ?b = "demo_body ''tabby'' ''+971501234567'' ''19.999''"
  have 0: "req_body ?req = Some ?b" by (simp add: demo_fields)
  have f: "fst (handler_unified demo_env ?w ?req) =
      Json 200 [(''success'', no),
                (''error'', Some (str ''Tabby was unable to approve this purchase. Please try paying with a card instead.'')),
                (''rejection_reason'', Some (str ''risky''))]"
    by (simp add: handler_unified_def tabby_checkout_def tabby_outcome_def upsert_contact_def
        demo_fields demo_respond parseFloat_19_999 Let_def attempt_eq rejection_reason_def
        or_else_def demo_env_def contact_reply_def rejected_reply_def)
  have 1: "field (fst (handler_unified demo_env ?w ?req)) ''success'' \<noteq> yes"
    by (simp add: f yes_def no_def)
  have 2: "field (fst (handler_unified demo_env ?w ?req)) ''error''
             \<noteq> Some (str ''Session created but no redirect URL found.'')"
    by (simp add: f)
  show ?thesis
    by (rule note_only_after_created_session [THEN mp, OF conjI, OF 1 2])
qed

section \<open>The Tabby reply\<close>






section \<open>Failures of the CRM calls\<close>

text \<open>
  C7: a failure of the CRM contact upsert (the call throws, or the reply carries no
  contact id) never prevents a session from being created and returned: when the Stripe
  call returns a session, and when the Tabby reply is \<^verbatim>\<open>created\<close> with a \<^verbatim>\<open>web_url\<close>, the
  answer is 200 with \<^verbatim>\<open>success:true\<close> and \<^verbatim>\<open>ghl_contact_id\<close> \<^verbatim>\<open>null\<close>. And the response does not
  depend on what the note and tag calls do: two worlds that differ only in their replies
  to note and tag calls get the same response.
\<close>

theorem crm_failures_are_not_fatal:
  assumes "req_method req = ''POST''" "req_body req = Some b"
    and "truthy (phone b)" "truthy (amount b)"
    and "\<not> le_zero (parseFloat (amount b))" "truthy (email b)"
  shows "(name b = SStr nm
          \<and> (respond w (GhlUpsert (bearer (GHL_API_KEY env)) (ghlPayload env b nm))
                = Throws msg
              \<or> (respond w (GhlUpsert (bearer (GHL_API_KEY env)) (ghlPayload env b nm))
                    = Returns ghlData
                  \<and> \<not> truthy_val (opt_get (opt_get (Some ghlData) ''contact'') ''id''))) \<longrightarrow>
          (payment_method b = SStr ''stripe'' \<and> is_set (STRIPE_SECRET_KEY env)
           \<and> respond w (StripeCreate (STRIPE_SECRET_KEY env)
                          (stripe_session_params env w b null)) = Returns session
           \<and> session \<noteq> null \<longrightarrow>
             fst (handler_unified env w req) =
               Json 200 [(''success'', yes),
                         (''redirect_url'', get session ''url''),
                         (''session_id'', get session ''id''),
                         (''ghl_contact_id'', Some null),
                         (''payment_method'', Some (str ''stripe''))])
          \<and> (payment_method b \<noteq> SStr ''stripe''
              \<and> is_set (TABBY_SECRET_KEY env) \<and> is_set (TABBY_MERCHANT_CODE env)
              \<and> respond w (TabbyCheckout (bearer (TABBY_PUBLIC_KEY env))
                             (tabbyPayload env w b)) = Returns tabbyData
              \<and> get tabbyData ''status'' = Some (str ''created'')
              \<and> truthy_val (webUrl tabbyData) \<longrightarrow>
             fst (handler_unified env w req) =
               Json 200 [(''success'', yes),
                         (''redirect_url'', webUrl tabbyData),
                         (''payment_id'', opt_get (get tabbyData ''payment'') ''id''),
                         (''session_id'', get tabbyData ''id''),
                         (''ghl_contact_id'', Some null),
                         (''payment_method'', Some (str ''tabby''))]))
     \<and> (date_now w' = date_now w
         \<and> (\<forall>c. \<not> is_note_call c \<and> \<not> is_tags_call c \<longrightarrow> respond w' c = respond w c) \<longrightarrow>
          fst (handler_unified env w' req) = fst (handler_unified env w req))"
proof (intro conjI impI)
  assume f: "name b = SStr nm
          \<and> (respond w (GhlUpsert (bearer (GHL_API_KEY env)) (ghlPayload env b nm))
                = Throws msg
              \<or> (respond w (GhlUpsert (bearer (GHL_API_KEY env)) (ghlPayload env b nm))
                    = Returns ghlData
                \<and> \<not> truthy_val (opt_get (opt_get (Some ghlData) ''contact'') ''id'')))"
  have g: "fst (upsert_contact env w b) = null"
    using f by (intro upsert_failed [of b nm w env msg ghlData]) auto
  {
    assume s: "payment_method b = SStr ''stripe'' \<and> is_set (STRIPE_SECRET_KEY env)
           \<and> respond w (StripeCreate (STRIPE_SECRET_KEY env)
                          (stripe_session_params env w b null)) = Returns session
           \<and> session \<noteq> null"
    have "fst (handler_unified env w req) = fst (stripe_checkout env w b null)"
      using s by (simp add: handler_unified_valid [OF assms] g Let_def)
    then show "fst (handler_unified env w req) =
               Json 200 [(''success'', yes),
                         (''redirect_url'', get session ''url''),
                         (''session_id'', get session ''id''),
                         (''ghl_contact_id'', Some null),
                         (''payment_method'', Some (str ''stripe''))]"
      using s by (simp add: stripe_checkout_fst)
  }
  {
    assume t: "payment_method b \<noteq> SStr ''stripe''
              \<and> is_set (TABBY_SECRET_KEY env) \<and> is_set (TABBY_MERCHANT_CODE env)
              \<and> respond w (TabbyCheckout (bearer (TABBY_PUBLIC_KEY env))
                             (tabbyPayload env w b)) = Returns tabbyData
              \<and> get tabbyData ''status'' = Some (str ''created'')
              \<and> truthy_val (webUrl tabbyData)"
    have "fst (handler_unified env w req) =
            fst (tabby_outcome env w b null tabbyData)"
      using t by (simp add: handler_unified_valid [OF assms] g Let_def tabby_checkout_def)
    then show "fst (handler_unified env w req) =
               Json 200 [(''success'', yes),
                         (''redirect_url'', webUrl tabbyData),
                         (''payment_id'', opt_get (get tabbyData ''payment'') ''id''),
                         (''session_id'', get tabbyData ''id''),
                         (''ghl_contact_id'', Some null),
                         (''payment_method'', Some (str ''tabby''))]"
      using t by (simp add: tabby_outcome_created)
  }
next
  assume "date_now w' = date_now w
         \<and> (\<forall>c. \<not> is_note_call c \<and> \<not> is_tags_call c \<longrightarrow> respond w' c = respond w c)"
  then show "fst (handler_unified env w' req) = fst (handler_unified env w req)"
    by (intro handler_unified_cong) auto
qed

theorem crm_failures_are_not_fatal_witness:
  "fst (handler_unified demo_env
          (demo_world (Throws ''network error'') (Returns session_reply) (Throws ''offline''))
          (demo_request ''stripe'' ''+971501234567'' ''19.999''))
     = Json 200 [(''success'', yes),
                 (''redirect_url'', Some (str ''https://stripe/pay/cs_test_1'')),
                 (''session_id'', Some (str ''cs_test_1'')),
                 (''ghl_contact_id'', Some null),
                 (''payment_method'', Some (str ''stripe''))]
   \<and> fst (handler_unified demo_env
            (notes_succeed (demo_world (Returns contact_reply) (Returns session_reply) (Throws ''offline'')))
            (demo_request ''stripe'' ''+971501234567'' ''19.999''))
     = fst (handler_unified demo_env
              (demo_world (Returns contact_reply) (Returns session_reply) (Throws ''offline''))
              (demo_request ''stripe'' ''+971501234567'' ''19.999''))"
proof -
  let ?w = "demo_world (Throws ''network error'') (Returns session_reply) (Throws ''offline'')"
  let ?v = "demo_world (Returns contact_reply) (Returns session_reply) (Throws ''offline'')"
  let ?req = "demo_request ''stripe'' ''+971501234567'' ''19.999''"
  let ?b = "demo_body ''stripe'' ''+971501234567'' ''19.999''"
  have 0: "req_body ?req = Some ?b" by (simp add: demo_fields)
  have 1: "req_method ?req = ''POST''" by (simp add: demo_fields)
  have 2: "truthy (phone ?b)" by (simp add: demo_fields)
  have 3: "truthy (amount ?b)" by (simp add: demo_fields)
  have 4: "\<not> le_zero (parseFloat (amount ?b))"
    by (simp add: demo_fields parseFloat_19_999)
  have 5: "truthy (email ?b)" by (simp add: demo_fields)
  have f: "name ?b = SStr ''Jane Doe''
      \<and> (respond ?w (GhlUpsert (bearer (GHL_API_KEY demo_env))
                        (ghlPayload demo_env ?b ''Jane Doe'')) = Throws ''network error''
          \<or> (respond ?w (GhlUpsert (bearer (GHL_API_KEY demo_env))
                            (ghlPayload demo_env ?b ''Jane Doe'')) = Returns null
              \<and> \<not> truthy_val (opt_get (opt_get (Some null) ''contact'') ''id'')))"
    by (simp add: demo_fields demo_respond)
  have s: "payment_method ?b = SStr ''stripe'' \<and> is_set (STRIPE_SECRET_KEY demo_env)
      \<and> respond ?w (StripeCreate (STRIPE_SECRET_KEY demo_env)
                       (stripe_session_params demo_env ?w ?b null)) = Returns session_reply
      \<and> session_reply \<noteq> null"
    by (simp add: demo_fields demo_respond demo_env_def session_reply_def)
  have e: "get session_reply ''url'' = Some (str ''https://stripe/pay/cs_test_1'')"
    "get session_reply ''id'' = Some (str ''cs_test_1'')"
    by (simp_all add: session_reply_def)
  have h: "date_now (notes_succeed ?v) = date_now ?v
      \<and> (\<forall>c. \<not> is_note_call c \<and> \<not> is_tags_call c \<longrightarrow>
            respond (notes_succeed ?v) c = respond ?v c)"
    by (simp add: notes_succeed_def)
  have a: "fst (handler_unified demo_env ?w ?req)
     = Json 200 [(''success'', yes),
                 (''redirect_url'', Some (str ''https://stripe/pay/cs_test_1'')),
                 (''session_id'', Some (str ''cs_test_1'')),
                 (''ghl_contact_id'', Some null),
                 (''payment_method'', Some (str ''stripe''))]"
    using crm_failures_are_not_fatal [OF 1 0 2 3 4 5, where env = demo_env and w = ?w
        and nm = "''Jane Doe''" and msg = "''network error''" and ghlData = null
        and session = session_reply,
        THEN conjunct1, THEN mp, OF f, THEN conjunct1, THEN mp, OF s]
    by (simp only: e)
  have b: "fst (handler_unified demo_env (notes_succeed ?v) ?req)
             = fst (handler_unified demo_env ?v ?req)"
    by (rule crm_failures_are_not_fatal [OF 1 0 2 3 4 5, where env = demo_env and w = ?v
          and w' = "notes_succeed ?v", THEN conjunct2, THEN mp, OF h])
  show ?thesis using a b by (rule conjI)
qed

end
